theory Spec2Isabelle
  imports Complex_Main "HOL-Library.Product_Lexorder"
begin

section \<open>The learning-effectiveness scorer of SayZhong\<close>

text \<open>
  A shallow embedding of \<^verbatim>\<open>src/sayzhong/core/learning_effectiveness.py\<close> (the data
  classes) and of the scoring methods of \<^verbatim>\<open>SemanticKernelEffectivenessAnalyzer\<close> in
  \<^verbatim>\<open>src/sayzhong/core/effectiveness_analyzer.py\<close>.

  Conventions of the embedding:
  \<^item> a Python \<^verbatim>\<open>float\<close> is read as a real number (rounding, infinities and NaN are
    not modelled); a Python \<^verbatim>\<open>int\<close> is an \<open>int\<close>, or a \<open>nat\<close> where the value is a
    length, an index or a field of a \<^verbatim>\<open>datetime\<close>;
  \<^item> a function that can raise returns \<open>py_error + 'a\<close>, with \<open>Inl\<close> for the exception;
  \<^item> a \<^verbatim>\<open>dict\<close> is an association list in insertion order, as Python iterates it;
  \<^item> the methods are \<^verbatim>\<open>async\<close> but never suspend in the parts modelled here, so they
    are plain functions; \<^verbatim>\<open>self\<close> is not read by any of them.
\<close>

subsection \<open>Data model\<close>

datatype LearningDifficulty = BEGINNER | ELEMENTARY | INTERMEDIATE | ADVANCED | NATIVE

datatype ContentType = VOCABULARY | GRAMMAR | CONVERSATION | LISTENING | READING | WRITING

text \<open>
  A naive \<^verbatim>\<open>datetime\<close>. Python compares two of them field by field, from the year
  down to the microsecond: \<open>datetime_key\<close> is that tuple, under the lexicographic order.
\<close>

record datetime =
  year :: nat
  month :: nat
  day :: nat
  hour :: nat
  minute :: nat
  second :: nat
  microsecond :: nat

definition datetime_key :: "datetime \<Rightarrow> nat \<times> nat \<times> nat \<times> nat \<times> nat \<times> nat \<times> nat" where
  "datetime_key d = (year d, month d, day d, hour d, minute d, second d, microsecond d)"

record LearningInteraction =
  interaction_id :: string
  user_id :: string
  session_id :: string
  timestamp :: datetime
  content_id :: string
  content_type :: ContentType
  difficulty_level :: LearningDifficulty
  question :: string
  user_answer :: string
  correct_answer :: string
  is_correct :: bool
  response_time_seconds :: real
  confidence_level :: "real option"
  hints_used :: int
  attempts :: int
  previous_attempts :: "string list"
  session_position :: int
  time_since_last_review :: "real option"

record LearningPattern =
  pattern_id :: string
  pattern_type :: string
  description :: string
  effectiveness_score :: real
  frequency :: int
  applicable_users :: "string list"
  conditions :: "(string \<times> nat list) list"
  outcomes :: "(string \<times> real) list"

subsection \<open>Exceptions and the operations that raise them\<close>

datatype py_error = StatisticsError | ZeroDivisionError | ValueError

definition bindE :: "py_error + 'a \<Rightarrow> ('a \<Rightarrow> py_error + 'b) \<Rightarrow> py_error + 'b" where
  "bindE m f = (case m of Inl e \<Rightarrow> Inl e | Inr v \<Rightarrow> f v)"

text \<open>Python's \<^verbatim>\<open>a / b\<close>.\<close>

definition py_div :: "real \<Rightarrow> real \<Rightarrow> py_error + real" where
  "py_div a b = (if b = 0 then Inl ZeroDivisionError else Inr (a / b))"

text \<open>\<^verbatim>\<open>statistics.mean\<close>, which raises on an empty sequence.\<close>

definition mean :: "real list \<Rightarrow> py_error + real" where
  "mean xs = (if xs = [] then Inl StatisticsError else Inr (sum_list xs / real (length xs)))"

text \<open>\<^verbatim>\<open>math.sqrt\<close>, which raises on a negative argument.\<close>

definition py_sqrt :: "real \<Rightarrow> py_error + real" where
  "py_sqrt x = (if x < 0 then Inl ValueError else Inr (sqrt x))"

text \<open>\<^verbatim>\<open>sum(1 for i in interactions if i.is_correct)\<close>.\<close>

definition count_correct :: "LearningInteraction list \<Rightarrow> nat" where
  "count_correct interactions = length (filter is_correct interactions)"

subsection \<open>Immediate effectiveness\<close>

definition calculate_immediate_effectiveness :: "LearningInteraction list \<Rightarrow> py_error + real" where
  "calculate_immediate_effectiveness interactions =
     (if interactions = [] then Inr 0
      else
        bindE (py_div (real (count_correct interactions)) (real (length interactions))) (\<lambda>accuracy.
        bindE (mean (map response_time_seconds interactions)) (\<lambda>avg_response_time.
        let response_efficiency = max 0 (1 - avg_response_time / 30) in
        bindE (mean (map (\<lambda>i. real_of_int (hints_used i)) interactions)) (\<lambda>avg_hints.
        bindE (mean (map (\<lambda>i. real_of_int (attempts i)) interactions)) (\<lambda>avg_attempts.
        let engagement = max 0 (1 - avg_hints / 3 - (avg_attempts - 1) / 2) in
        Inr (accuracy * 0.5 + response_efficiency * 0.3 + engagement * 0.2))))))"

subsection \<open>Difficulty trend and real-time effectiveness\<close>

text \<open>The \<^verbatim>\<open>difficulty_values\<close> dictionary; it has an entry for every member of the enum.\<close>

fun difficulty_values :: "LearningDifficulty \<Rightarrow> int" where
  "difficulty_values BEGINNER = 1"
| "difficulty_values ELEMENTARY = 2"
| "difficulty_values INTERMEDIATE = 3"
| "difficulty_values ADVANCED = 4"
| "difficulty_values NATIVE = 5"

text \<open>\<^verbatim>\<open>sorted(interactions, key=lambda x: x.timestamp)\<close>; both sorts are stable.\<close>

definition sorted_by_timestamp :: "LearningInteraction list \<Rightarrow> LearningInteraction list" where
  "sorted_by_timestamp interactions = sort_key (\<lambda>x. datetime_key (timestamp x)) interactions"

definition calculate_difficulty_trend :: "LearningInteraction list \<Rightarrow> py_error + real" where
  "calculate_difficulty_trend interactions =
     (if length interactions < 3 then Inr 0.5
      else
        let sorted_interactions = sorted_by_timestamp interactions;
            difficulties = map (\<lambda>i. difficulty_values (difficulty_level i)) sorted_interactions
        in
        if length difficulties < 2 then Inr 0.5
        else
          let x_values = [0..<length difficulties];
              n = length difficulties
          in
          bindE (py_div (real (sum_list x_values)) (real n)) (\<lambda>mean_x.
          bindE (py_div (real_of_int (sum_list difficulties)) (real n)) (\<lambda>mean_y.
          let numerator =
                (\<Sum>i\<leftarrow>[0..<n]. (real (x_values ! i) - mean_x) * (real_of_int (difficulties ! i) - mean_y));
              denominator_x = (\<Sum>i\<leftarrow>[0..<n]. (real (x_values ! i) - mean_x)\<^sup>2);
              denominator_y = (\<Sum>i\<leftarrow>[0..<n]. (real_of_int (difficulties ! i) - mean_y)\<^sup>2)
          in
          if denominator_x = 0 \<or> denominator_y = 0 then Inr 0.5
          else
            bindE (py_sqrt (denominator_x * denominator_y)) (\<lambda>root.
            bindE (py_div numerator root) (\<lambda>correlation.
            Inr (max 0 ((correlation + 1) / 2)))))))"

definition calculate_real_time_effectiveness :: "LearningInteraction list \<Rightarrow> py_error + real" where
  "calculate_real_time_effectiveness interactions =
     (if interactions = [] then Inr 0.5
      else
        bindE (py_div (real (count_correct interactions)) (real (length interactions))) (\<lambda>accuracy.
        bindE (mean (map response_time_seconds interactions)) (\<lambda>avg_response_time.
        let response_efficiency = max 0 (1 - avg_response_time / 30);
            confidence_scores = List.map_filter confidence_level interactions
        in
        bindE (if confidence_scores \<noteq> [] then mean confidence_scores else Inr 0.5) (\<lambda>avg_confidence.
        bindE (calculate_difficulty_trend interactions) (\<lambda>difficulty_trend.
        let effectiveness =
              accuracy * 0.4 + response_efficiency * 0.2 + avg_confidence * 0.2 + difficulty_trend * 0.2
        in Inr (min (max effectiveness 0) 1))))))"

subsection \<open>Retention effectiveness\<close>

text \<open>
  The grouping idiom of the source,
  \<^verbatim>\<open>if k not in d: d[k] = []\<close> followed by \<^verbatim>\<open>d[k].append(v)\<close>,
  on a dictionary kept in insertion order.
\<close>

fun dict_append :: "('k \<times> 'v list) list \<Rightarrow> 'k \<Rightarrow> 'v \<Rightarrow> ('k \<times> 'v list) list" where
  "dict_append [] k v = [(k, [v])]"
| "dict_append ((k', vs) # d) k v =
     (if k' = k then (k', vs @ [v]) # d else (k', vs) # dict_append d k v)"

definition content_groups :: "LearningInteraction list \<Rightarrow> (string \<times> LearningInteraction list) list" where
  "content_groups interactions = foldl (\<lambda>d i. dict_append d (content_id i) i) [] interactions"

text \<open>The slice \<^verbatim>\<open>xs[-3:]\<close>: the last three elements, or all of them when there are fewer.\<close>

definition last3 :: "'a list \<Rightarrow> 'a list" where
  "last3 xs = drop (length xs - 3) xs"

text \<open>The body of the loop over the groups, for a group that is not skipped.\<close>

definition content_retention_score :: "LearningInteraction list \<Rightarrow> py_error + real" where
  "content_retention_score content_interactions =
     (let sorted_interactions = sorted_by_timestamp content_interactions in
      bindE (py_div (real (count_correct (take 3 sorted_interactions)))
                    (real (min 3 (length sorted_interactions)))) (\<lambda>initial_performance.
      bindE (py_div (real (count_correct (last3 sorted_interactions)))
                    (real (min 3 (length sorted_interactions)))) (\<lambda>later_performance.
      bindE (if initial_performance > 0 then py_div later_performance initial_performance
             else Inr 0.5) (\<lambda>retention_score.
      Inr (min retention_score 1)))))"

fun retention_loop ::
  "(string \<times> LearningInteraction list) list \<Rightarrow> real list \<Rightarrow> py_error + real list" where
  "retention_loop [] retention_scores = Inr retention_scores"
| "retention_loop ((cid, content_interactions) # rest) retention_scores =
     (if length content_interactions < 2 then retention_loop rest retention_scores
      else (case content_retention_score content_interactions of
              Inl e \<Rightarrow> Inl e
            | Inr s \<Rightarrow> retention_loop rest (retention_scores @ [s])))"

text \<open>The parameter \<^verbatim>\<open>retention_data\<close> of the source is never read and is left out.\<close>

definition calculate_retention_effectiveness :: "LearningInteraction list \<Rightarrow> py_error + real" where
  "calculate_retention_effectiveness interactions =
     bindE (retention_loop (content_groups interactions) []) (\<lambda>retention_scores.
     if retention_scores \<noteq> [] then mean retention_scores else Inr 0.5)"

subsection \<open>Progression effectiveness and the overall score\<close>

text \<open>\<^verbatim>\<open>progress_data.get(key, 0)\<close> on a dictionary of numbers.\<close>

definition dict_get :: "(string \<times> real) list \<Rightarrow> string \<Rightarrow> real \<Rightarrow> real" where
  "dict_get d k dflt = (case map_of d k of None \<Rightarrow> dflt | Some v \<Rightarrow> v)"

definition calculate_progression_effectiveness :: "(string \<times> real) list \<Rightarrow> py_error + real" where
  "calculate_progression_effectiveness progress_data =
     (if progress_data = [] then Inr 0.5
      else
        let difficulty_progression = dict_get progress_data ''difficulty_progression'' 0;
            mastery_rate = dict_get progress_data ''mastery_rate'' 0;
            learning_velocity = dict_get progress_data ''learning_velocity'' 0;
            normalized_progression = min (difficulty_progression / 5) 1;
            normalized_mastery = min mastery_rate 1;
            normalized_velocity = min (learning_velocity / 10) 1
        in Inr (normalized_progression * 0.4 + normalized_mastery * 0.4 + normalized_velocity * 0.2))"

text \<open>
  The four scores of an \<^verbatim>\<open>EffectivenessAnalysis\<close>. \<open>analyze_user_scores\<close> is the scoring
  part of \<^verbatim>\<open>analyze_user_effectiveness\<close>, with the interactions and the progress data
  it fetches taken as parameters: no interactions, or an exception anywhere, gives the
  analysis of \<^verbatim>\<open>_create_empty_analysis\<close>, all of whose scores are 0.5 (as does an
  exception raised by the storage collaborators, which are not modelled).
\<close>

record EffectivenessScores =
  immediate_effectiveness :: real
  retention_effectiveness :: real
  progression_effectiveness :: real
  overall_effectiveness :: real

definition create_empty_analysis :: EffectivenessScores where
  "create_empty_analysis =
     \<lparr>immediate_effectiveness = 0.5, retention_effectiveness = 0.5,
      progression_effectiveness = 0.5, overall_effectiveness = 0.5\<rparr>"

definition overall_score :: "real \<Rightarrow> real \<Rightarrow> real \<Rightarrow> real" where
  "overall_score immediate retention progression =
     immediate * 0.4 + retention * 0.4 + progression * 0.2"

definition analyze_user_scores ::
  "LearningInteraction list \<Rightarrow> (string \<times> real) list \<Rightarrow> EffectivenessScores" where
  "analyze_user_scores interactions progress_data =
     (if interactions = [] then create_empty_analysis
      else
        case
          bindE (calculate_immediate_effectiveness interactions) (\<lambda>immediate.
          bindE (calculate_retention_effectiveness interactions) (\<lambda>retention.
          bindE (calculate_progression_effectiveness progress_data) (\<lambda>progression.
          Inr \<lparr>immediate_effectiveness = immediate, retention_effectiveness = retention,
               progression_effectiveness = progression,
               overall_effectiveness = overall_score immediate retention progression\<rparr>)))
        of Inl e \<Rightarrow> create_empty_analysis | Inr analysis \<Rightarrow> analysis)"

subsection \<open>Pattern identification\<close>

text \<open>\<^verbatim>\<open>str\<close> of a non-negative integer and of a list of them, as an f-string prints them.\<close>

fun str_nat :: "nat \<Rightarrow> string" where
  "str_nat n =
     (if n < 10 then [char_of (48 + n)] else str_nat (n div 10) @ [char_of (48 + n mod 10)])"

fun join_comma :: "string list \<Rightarrow> string" where
  "join_comma [] = []"
| "join_comma [s] = s"
| "join_comma (s # t # ss) = s @ '', '' @ join_comma (t # ss)"

definition str_list :: "nat list \<Rightarrow> string" where
  "str_list ns = ''['' @ join_comma (map str_nat ns) @ '']''"

definition hour_performance :: "LearningInteraction list \<Rightarrow> (nat \<times> bool list) list" where
  "hour_performance interactions =
     foldl (\<lambda>d i. dict_append d (hour (timestamp i)) (is_correct i)) [] interactions"

text \<open>\<^verbatim>\<open>sum(performance)\<close> counts the true entries of a list of booleans.\<close>

fun best_hours_loop :: "(nat \<times> bool list) list \<Rightarrow> nat list \<Rightarrow> py_error + nat list" where
  "best_hours_loop [] best_hours = Inr best_hours"
| "best_hours_loop ((h, performance) # rest) best_hours =
     (if length performance \<ge> 5 then
        (case py_div (real (length (filter (\<lambda>correct. correct) performance)))
                     (real (length performance)) of
           Inl e \<Rightarrow> Inl e
         | Inr accuracy \<Rightarrow>
             if accuracy > 0.8 then best_hours_loop rest (best_hours @ [h])
             else best_hours_loop rest best_hours)
      else best_hours_loop rest best_hours)"

text \<open>
  The parameters \<^verbatim>\<open>progress_data\<close> and \<^verbatim>\<open>retention_data\<close> of the source are never
  read and are left out. \<^verbatim>\<open>interactions[0]\<close> is read only where the list is not empty.
\<close>

definition identify_learning_patterns_ai :: "LearningInteraction list \<Rightarrow> py_error + LearningPattern list" where
  "identify_learning_patterns_ai interactions =
     (let patterns = [] in
      case interactions of
        [] \<Rightarrow> Inr patterns
      | first # _ \<Rightarrow>
          bindE (best_hours_loop (hour_performance interactions) []) (\<lambda>best_hours.
          if best_hours \<noteq> [] then
            Inr (patterns @
              [\<lparr>pattern_id = ''optimal_timing_'' @ str_nat (length patterns),
                pattern_type = ''optimal_timing'',
                description = ''User performs best during hours: '' @ str_list best_hours,
                effectiveness_score = 0.8,
                frequency = int (length best_hours),
                applicable_users = [user_id first],
                conditions = [(''optimal_hours'', best_hours)],
                outcomes = [(''accuracy_improvement'', 0.2)]\<rparr>])
          else Inr patterns))"

subsection \<open>Notions of the specification\<close>

text \<open>The fraction of correct interactions and the arithmetic mean, as the specification words them.\<close>

definition fraction_correct :: "LearningInteraction list \<Rightarrow> real" where
  "fraction_correct interactions =
     real (length (filter is_correct interactions)) / real (length interactions)"

definition arithmetic_mean :: "real list \<Rightarrow> real" where
  "arithmetic_mean xs = sum_list xs / real (length xs)"

text \<open>
  The invariants of the data model on one interaction, and the test that a scoring
  function returned a score in \<open>[0, 1]\<close>.
\<close>

definition valid_interaction :: "LearningInteraction \<Rightarrow> bool" where
  "valid_interaction i =
     (0 \<le> response_time_seconds i \<and> 0 \<le> hints_used i \<and> 1 \<le> attempts i
      \<and> (case confidence_level i of None \<Rightarrow> True | Some c \<Rightarrow> 0 \<le> c \<and> c \<le> 1))"

definition in_unit_interval :: "py_error + real \<Rightarrow> bool" where
  "in_unit_interval r = (case r of Inl e \<Rightarrow> False | Inr v \<Rightarrow> 0 \<le> v \<and> v \<le> 1)"

text \<open>
  Retention as the specification words it. The per-content ratio compares the mean
  correctness of the first three and of the last three interactions of one content, in
  timestamp order; the contents are taken in the order of their first interaction.
\<close>

definition retention_ratio :: "LearningInteraction list \<Rightarrow> real" where
  "retention_ratio content_interactions =
     (let in_time_order = sorted_by_timestamp content_interactions;
          initial = fraction_correct (take 3 in_time_order);
          later = fraction_correct (last3 in_time_order)
      in min (if initial > 0 then later / initial else 0.5) 1)"

definition first_occurrences :: "'a list \<Rightarrow> 'a list" where
  "first_occurrences xs = rev (remdups (rev xs))"

definition interactions_of :: "string \<Rightarrow> LearningInteraction list \<Rightarrow> LearningInteraction list" where
  "interactions_of c interactions = filter (\<lambda>i. content_id i = c) interactions"

definition retention_ratios :: "LearningInteraction list \<Rightarrow> real list" where
  "retention_ratios interactions =
     map (\<lambda>c. retention_ratio (interactions_of c interactions))
       (filter (\<lambda>c. 2 \<le> length (interactions_of c interactions))
          (first_occurrences (map content_id interactions)))"

definition retention_spec :: "LearningInteraction list \<Rightarrow> real" where
  "retention_spec interactions =
     (if retention_ratios interactions = [] then 0.5
      else arithmetic_mean (retention_ratios interactions))"

text \<open>Example data: an interaction with the given content, hour, minute, level, correctness and latency.\<close>

definition example_interaction ::
  "string \<Rightarrow> nat \<Rightarrow> nat \<Rightarrow> LearningDifficulty \<Rightarrow> bool \<Rightarrow> real \<Rightarrow> LearningInteraction" where
  "example_interaction cid h m level correct latency =
     \<lparr>interaction_id = ''interaction'', user_id = ''learner'', session_id = ''session'',
      timestamp = \<lparr>year = 2025, month = 1, day = 15, hour = h, minute = m, second = 0,
                   microsecond = 0\<rparr>,
      content_id = cid, content_type = VOCABULARY, difficulty_level = level,
      question = ''q'', user_answer = ''a'', correct_answer = ''a'', is_correct = correct,
      response_time_seconds = latency, confidence_level = None, hints_used = 0, attempts = 1,
      previous_attempts = [], session_position = 0, time_since_last_review = None\<rparr>"

definition example_six :: "LearningInteraction list" where
  "example_six =
           [example_interaction ''c1'' 9 0 BEGINNER True 2,
            example_interaction ''c1'' 9 5 BEGINNER True 2,
            example_interaction ''c1'' 9 10 BEGINNER True 2,
            example_interaction ''c1'' 10 0 BEGINNER False 2,
            example_interaction ''c1'' 10 5 BEGINNER False 2,
            example_interaction ''c1'' 10 10 BEGINNER False 2]"

text \<open>
  The difficulty trend as the specification words it: the Pearson correlation coefficient
  of the order index \<open>0, 1, 2, \<dots>\<close> and the difficulty levels in timestamp order, mapped
  from \<open>[-1, 1]\<close> to \<open>[0, 1]\<close>, and 0.5 in the degenerate cases.
\<close>

definition sum_sq_dev :: "real list \<Rightarrow> real" where
  "sum_sq_dev xs = (\<Sum>x\<leftarrow>xs. (x - arithmetic_mean xs)\<^sup>2)"

definition pearson :: "real list \<Rightarrow> real list \<Rightarrow> real" where
  "pearson xs ys =
     (\<Sum>(x, y)\<leftarrow>zip xs ys. (x - arithmetic_mean xs) * (y - arithmetic_mean ys))
       / sqrt (sum_sq_dev xs * sum_sq_dev ys)"

definition order_index :: "nat \<Rightarrow> real list" where
  "order_index n = map real [0..<n]"

definition difficulty_series :: "LearningInteraction list \<Rightarrow> real list" where
  "difficulty_series interactions =
     map (\<lambda>i. real_of_int (difficulty_values (difficulty_level i))) (sorted_by_timestamp interactions)"

definition trend_spec :: "LearningInteraction list \<Rightarrow> real" where
  "trend_spec interactions =
     (let xs = order_index (length interactions); ys = difficulty_series interactions
      in if length interactions < 3 \<or> sum_sq_dev xs = 0 \<or> sum_sq_dev ys = 0 then 0.5
         else (pearson xs ys + 1) / 2)"

text \<open>
  The difficulty levels in timestamp order, as the numbers 1 to 5, and the test that a
  series rises (or, for a negative \<open>d\<close>, falls) by the same step \<open>d\<close> from each entry to
  the next.
\<close>

fun constant_step :: "int \<Rightarrow> int list \<Rightarrow> bool" where
  "constant_step d (y # z # ys) = (z = y + d \<and> constant_step d (z # ys))"
| "constant_step d ys = True"

definition difficulties_in_time_order :: "LearningInteraction list \<Rightarrow> int list" where
  "difficulties_in_time_order interactions =
     map (\<lambda>i. difficulty_values (difficulty_level i)) (sorted_by_timestamp interactions)"

text \<open>Example data: interactions with the given levels, one per minute from 9:00.\<close>

definition example_levels :: "LearningDifficulty list \<Rightarrow> LearningInteraction list" where
  "example_levels levels =
     map (\<lambda>(m, level). example_interaction ''c1'' 9 m level True 2) (zip [0..<length levels] levels)"

text \<open>The mean of the confidence estimates that are present, or the neutral 0.5.\<close>

definition mean_confidence :: "LearningInteraction list \<Rightarrow> real" where
  "mean_confidence interactions =
     (let present = List.map_filter confidence_level interactions
      in if present = [] then 0.5 else arithmetic_mean present)"

text \<open>A scoring function returned a score, and did not raise.\<close>

definition returns_score :: "py_error + real \<Rightarrow> bool" where
  "returns_score r = (case r of Inl e \<Rightarrow> False | Inr v \<Rightarrow> True)"

text \<open>
  Equality within floating-point tolerance, read as a relative error of at most one part
  in a million.
\<close>

definition within_float_tolerance :: "real \<Rightarrow> real \<Rightarrow> bool" where
  "within_float_tolerance a b = (\<bar>a - b\<bar> \<le> max \<bar>a\<bar> \<bar>b\<bar> / 1000000)"

text \<open>Example data: a summary of progress, and an interaction whose numbers are all negative.\<close>

definition example_progress :: "(string \<times> real) list" where
  "example_progress =
     [(''difficulty_progression'', 2), (''mastery_rate'', 0.5), (''learning_velocity'', 4)]"

definition example_negative :: LearningInteraction where
  "example_negative =
     (example_interaction ''c1'' 9 0 BEGINNER True (- 30))\<lparr>hints_used := - 3, attempts := - 1\<rparr>"

text \<open>Example data: a correct answer given in one second, with no hint, at the first attempt.\<close>

definition example_one_second :: LearningInteraction where
  "example_one_second = example_interaction ''c1'' 9 0 BEGINNER True 1"

text \<open>
  Pattern identification as the specification words it: the interactions of one hour of
  the day, the hours that qualify (at least 5 interactions, accuracy above 0.8), in the
  order of their first interaction, and the hours a pattern records in its conditions.
\<close>

definition hour_interactions :: "nat \<Rightarrow> LearningInteraction list \<Rightarrow> LearningInteraction list" where
  "hour_interactions h interactions = filter (\<lambda>i. hour (timestamp i) = h) interactions"

definition qualifying_hour :: "nat \<Rightarrow> LearningInteraction list \<Rightarrow> bool" where
  "qualifying_hour h interactions =
     (5 \<le> length (hour_interactions h interactions)
      \<and> fraction_correct (hour_interactions h interactions) > 0.8)"

definition qualifying_hours :: "LearningInteraction list \<Rightarrow> nat list" where
  "qualifying_hours interactions =
     filter (\<lambda>h. qualifying_hour h interactions)
       (first_occurrences (map (\<lambda>i. hour (timestamp i)) interactions))"

definition recorded_hours :: "LearningPattern \<Rightarrow> nat list" where
  "recorded_hours p = (case map_of (conditions p) ''optimal_hours'' of None \<Rightarrow> [] | Some hs \<Rightarrow> hs)"

text \<open>Example data: correct answers in the given hour, one for each of the given minutes.\<close>

definition example_hour :: "nat \<Rightarrow> nat list \<Rightarrow> LearningInteraction list" where
  "example_hour h ms = map (\<lambda>m. example_interaction ''c1'' h m BEGINNER True 2) ms"

section \<open>Properties\<close>

subsection \<open>Exceptions that cannot happen\<close>

lemma bindE_Inr [simp]: "bindE (Inr v) f = f v"
  by (simp add: bindE_def)

lemma bindE_Inl [simp]: "bindE (Inl e) f = Inl e"
  by (simp add: bindE_def)

lemma py_div_Inr: "b \<noteq> 0 \<Longrightarrow> py_div a b = Inr (a / b)"
  by (simp add: py_div_def)

lemma mean_Inr: "xs \<noteq> [] \<Longrightarrow> mean xs = Inr (sum_list xs / real (length xs))"
  by (simp add: mean_def)

subsection \<open>Immediate effectiveness\<close>

lemma immediate_nonempty:
  assumes "interactions \<noteq> []"
  shows "calculate_immediate_effectiveness interactions =
     Inr (fraction_correct interactions * 0.5
          + max 0 (1 - arithmetic_mean (map response_time_seconds interactions) / 30) * 0.3
          + max 0 (1 - arithmetic_mean (map (\<lambda>i. real_of_int (hints_used i)) interactions) / 3
                     - (arithmetic_mean (map (\<lambda>i. real_of_int (attempts i)) interactions) - 1) / 2) * 0.2)"
  using assms
  by (simp add: calculate_immediate_effectiveness_def py_div_Inr mean_Inr Let_def
        fraction_correct_def arithmetic_mean_def count_correct_def)

text \<open>
  Claim C4. On every non-empty interaction sequence (written \<open>i # rest\<close>) immediate
  effectiveness returns accuracy * 0.5 + max(0, 1 - avg_latency/30) * 0.3
  + max(0, 1 - avg_hints/3 - (avg_attempts - 1)/2) * 0.2, where accuracy is the fraction of
  correct interactions and the averages are arithmetic means over the sequence.
\<close>

theorem immediate_effectiveness_formula:
  "calculate_immediate_effectiveness (i # rest) =
     Inr (fraction_correct (i # rest) * 0.5
          + max 0 (1 - arithmetic_mean (map response_time_seconds (i # rest)) / 30) * 0.3
          + max 0 (1 - arithmetic_mean (map (\<lambda>i. real_of_int (hints_used i)) (i # rest)) / 3
                     - (arithmetic_mean (map (\<lambda>i. real_of_int (attempts i)) (i # rest)) - 1) / 2) * 0.2)"
  by (rule immediate_nonempty) simp

text \<open>
  Claim C6. On the empty interaction sequence immediate effectiveness returns 0.0 and the
  real-time score returns 0.5; both return a value, neither raises.
\<close>

theorem empty_sequence_defaults:
  "calculate_immediate_effectiveness [] = Inr 0 \<and> calculate_real_time_effectiveness [] = Inr 0.5"
  by (simp add: calculate_immediate_effectiveness_def calculate_real_time_effectiveness_def)

subsection \<open>Progression effectiveness\<close>

lemma progression_nonempty:
  "progress_data \<noteq> [] \<Longrightarrow>
   calculate_progression_effectiveness progress_data =
     Inr (min (dict_get progress_data ''difficulty_progression'' 0 / 5) 1 * 0.4
          + min (dict_get progress_data ''mastery_rate'' 0 / 1) 1 * 0.4
          + min (dict_get progress_data ''learning_velocity'' 0 / 10) 1 * 0.2)"
  by (simp add: calculate_progression_effectiveness_def Let_def)

text \<open>
  Claim C8. Progression effectiveness of a non-empty summary (written \<open>kv # rest\<close>) is
  min(difficulty_progression/5, 1) * 0.4 + min(mastery_rate/1.0, 1) * 0.4
  + min(learning_velocity/10, 1) * 0.2, a missing field counting as 0; the empty summary
  gives 0.5; and the summary with difficulty_progression 5, mastery_rate 1.0 and
  learning_velocity 10 gives exactly 1.0.
\<close>

theorem progression_effectiveness_formula:
  "calculate_progression_effectiveness (kv # rest) =
     Inr (min (dict_get (kv # rest) ''difficulty_progression'' 0 / 5) 1 * 0.4
          + min (dict_get (kv # rest) ''mastery_rate'' 0 / 1) 1 * 0.4
          + min (dict_get (kv # rest) ''learning_velocity'' 0 / 10) 1 * 0.2)
   \<and> calculate_progression_effectiveness [] = Inr 0.5
   \<and> calculate_progression_effectiveness
        [(''difficulty_progression'', 5), (''mastery_rate'', 1), (''learning_velocity'', 10)] = Inr 1"
  by (simp add: progression_nonempty dict_get_def) (simp add: calculate_progression_effectiveness_def)

subsection \<open>Scores lie in the unit interval\<close>

lemma in_unit_interval_Inr [simp]: "in_unit_interval (Inr v) = (0 \<le> v \<and> v \<le> 1)"
  by (simp add: in_unit_interval_def)

lemma sum_list_lower:
  fixes xs :: "real list"
  shows "\<forall>x\<in>set xs. c \<le> x \<Longrightarrow> c * real (length xs) \<le> sum_list xs"
  by (induction xs) (auto simp: algebra_simps intro: add_mono)

lemma sum_list_upper:
  fixes xs :: "real list"
  shows "\<forall>x\<in>set xs. x \<le> c \<Longrightarrow> sum_list xs \<le> c * real (length xs)"
  by (induction xs) (auto simp: algebra_simps intro: add_mono)

lemma arithmetic_mean_lower:
  assumes "xs \<noteq> []" and "\<And>x. x \<in> set xs \<Longrightarrow> c \<le> x"
  shows "c \<le> arithmetic_mean xs"
proof -
  have "0 < real (length xs)" using assms(1) by simp
  moreover have "c * real (length xs) \<le> sum_list xs" using assms(2) by (intro sum_list_lower) simp
  ultimately show ?thesis
    unfolding arithmetic_mean_def by (simp add: pos_le_divide_eq)
qed

lemma arithmetic_mean_upper:
  assumes "xs \<noteq> []" and "\<And>x. x \<in> set xs \<Longrightarrow> x \<le> c"
  shows "arithmetic_mean xs \<le> c"
proof -
  have "0 < real (length xs)" using assms(1) by simp
  moreover have "sum_list xs \<le> c * real (length xs)" using assms(2) by (intro sum_list_upper) simp
  ultimately show ?thesis
    unfolding arithmetic_mean_def by (simp add: pos_divide_le_eq)
qed

lemma fraction_correct_bounds:
  "0 \<le> fraction_correct xs \<and> fraction_correct xs \<le> 1"
proof (cases "xs = []")
  case True
  then show ?thesis by (simp add: fraction_correct_def)
next
  case False
  have "length (filter is_correct xs) \<le> length xs" by simp
  then have "real (length (filter is_correct xs)) \<le> real (length xs)" by linarith
  with False show ?thesis by (simp add: fraction_correct_def divide_le_eq_1)
qed

lemma weighted_unit:
  fixes a b c :: real
  assumes "0 \<le> a" "a \<le> 1" "0 \<le> b" "b \<le> 1" "0 \<le> c" "c \<le> 1"
  shows "0 \<le> a * 0.5 + b * 0.3 + c * 0.2 \<and> a * 0.5 + b * 0.3 + c * 0.2 \<le> 1"
  using assms by simp

lemma immediate_bounds:
  assumes "\<And>i. i \<in> set interactions \<Longrightarrow> valid_interaction i"
  shows "in_unit_interval (calculate_immediate_effectiveness interactions)"
proof (cases "interactions = []")
  case True
  then show ?thesis by (simp add: calculate_immediate_effectiveness_def)
next
  case False
  let ?lat = "arithmetic_mean (map response_time_seconds interactions)"
  let ?hints = "arithmetic_mean (map (\<lambda>i. real_of_int (hints_used i)) interactions)"
  let ?att = "arithmetic_mean (map (\<lambda>i. real_of_int (attempts i)) interactions)"
  have lat: "0 \<le> ?lat"
    using False assms by (intro arithmetic_mean_lower) (auto simp: valid_interaction_def)
  have hints: "0 \<le> ?hints"
    using False assms by (intro arithmetic_mean_lower) (auto simp: valid_interaction_def)
  have att: "1 \<le> ?att"
    using False assms by (intro arithmetic_mean_lower) (auto simp: valid_interaction_def)
  have re: "0 \<le> max 0 (1 - ?lat / 30) \<and> max 0 (1 - ?lat / 30) \<le> 1"
    using lat by simp
  have en: "0 \<le> max 0 (1 - ?hints / 3 - (?att - 1) / 2) \<and> max 0 (1 - ?hints / 3 - (?att - 1) / 2) \<le> 1"
    using hints att by simp
  show ?thesis
    unfolding immediate_nonempty [OF False] in_unit_interval_Inr
    using fraction_correct_bounds [of interactions] re en
    by (intro weighted_unit) simp_all
qed

subsection \<open>Grouping into a dictionary of lists\<close>

lemma first_occurrences_snoc:
  "first_occurrences (xs @ [x]) =
     (if x \<in> set xs then first_occurrences xs else first_occurrences xs @ [x])"
  by (simp add: first_occurrences_def)

lemma set_first_occurrences [simp]: "set (first_occurrences xs) = set xs"
  by (simp add: first_occurrences_def)

lemma distinct_first_occurrences [simp]: "distinct (first_occurrences xs)"
  by (simp add: first_occurrences_def)

lemma dict_append_present:
  assumes "distinct ks" and "k \<in> set ks"
  shows "dict_append (map (\<lambda>c. (c, g c)) ks) k v =
         map (\<lambda>c. (c, if c = k then g c @ [v] else g c)) ks"
  using assms by (induction ks) auto

lemma dict_append_absent:
  assumes "k \<notin> set ks"
  shows "dict_append (map (\<lambda>c. (c, g c)) ks) k v = map (\<lambda>c. (c, g c)) ks @ [(k, [v])]"
  using assms by (induction ks) auto

lemma grouping_fold:
  "foldl (\<lambda>d i. dict_append d (key i) (val i)) [] xs =
     map (\<lambda>c. (c, map val (filter (\<lambda>i. key i = c) xs))) (first_occurrences (map key xs))"
proof (induction xs rule: rev_induct)
  case Nil
  then show ?case by (simp add: first_occurrences_def)
next
  case (snoc x xs)
  let ?g = "\<lambda>c. map val (filter (\<lambda>i. key i = c) xs)"
  let ?g' = "\<lambda>c. map val (filter (\<lambda>i. key i = c) (xs @ [x]))"
  let ?ks = "first_occurrences (map key xs)"
  have step: "foldl (\<lambda>d i. dict_append d (key i) (val i)) [] (xs @ [x])
      = dict_append (map (\<lambda>c. (c, ?g c)) ?ks) (key x) (val x)"
    using snoc by simp
  show ?case
  proof (cases "key x \<in> set (map key xs)")
    case True
    have A: "dict_append (map (\<lambda>c. (c, ?g c)) ?ks) (key x) (val x)
        = map (\<lambda>c. (c, if c = key x then ?g c @ [val x] else ?g c)) ?ks"
      using True by (intro dict_append_present) simp_all
    have B: "map (\<lambda>c. (c, if c = key x then ?g c @ [val x] else ?g c)) ?ks
        = map (\<lambda>c. (c, ?g' c)) ?ks"
      by (rule map_cong) auto
    have K: "first_occurrences (map key (xs @ [x])) = ?ks"
      using True by (simp add: first_occurrences_snoc)
    show ?thesis
      by (simp only: step A B K)
  next
    case False
    then have ne: "\<And>i. i \<in> set xs \<Longrightarrow> key i \<noteq> key x"
      by (metis imageI set_map)
    have A: "dict_append (map (\<lambda>c. (c, ?g c)) ?ks) (key x) (val x)
        = map (\<lambda>c. (c, ?g c)) ?ks @ [(key x, [val x])]"
      using False by (intro dict_append_absent) simp
    have B: "map (\<lambda>c. (c, ?g c)) ?ks = map (\<lambda>c. (c, ?g' c)) ?ks"
      using False by (intro map_cong) auto
    have C: "?g' (key x) = [val x]"
      using ne by (simp add: filter_empty_conv)
    have K: "first_occurrences (map key (xs @ [x])) = ?ks @ [key x]"
      using False by (simp add: first_occurrences_snoc)
    have "foldl (\<lambda>d i. dict_append d (key i) (val i)) [] (xs @ [x])
        = map (\<lambda>c. (c, ?g c)) ?ks @ [(key x, [val x])]"
      by (simp only: step A)
    also have "\<dots> = map (\<lambda>c. (c, ?g' c)) ?ks @ [(key x, ?g' (key x))]"
      by (simp only: B C)
    also have "\<dots> = map (\<lambda>c. (c, ?g' c)) (?ks @ [key x])"
      by simp
    finally show ?thesis
      by (simp only: K)
  qed
qed

subsection \<open>Retention effectiveness\<close>

lemma length_sorted_by_timestamp [simp]:
  "length (sorted_by_timestamp xs) = length xs"
  by (simp add: sorted_by_timestamp_def)

lemma length_last3 [simp]: "length (last3 xs) = min 3 (length xs)"
  by (auto simp: last3_def)

lemma content_retention_score_value:
  assumes "content_interactions \<noteq> []"
  shows "content_retention_score content_interactions = Inr (retention_ratio content_interactions)"
proof -
  let ?s = "sorted_by_timestamp content_interactions"
  have m: "real (min 3 (length ?s)) \<noteq> 0" using assms by simp
  have i: "real (count_correct (take 3 ?s)) / real (min 3 (length ?s)) = fraction_correct (take 3 ?s)"
    by (simp add: fraction_correct_def count_correct_def min.commute)
  have l: "real (count_correct (last3 ?s)) / real (min 3 (length ?s)) = fraction_correct (last3 ?s)"
    by (simp add: fraction_correct_def count_correct_def)
  have pos: "0 < fraction_correct (take 3 ?s) \<Longrightarrow> fraction_correct (take 3 ?s) \<noteq> 0"
    by simp
  show ?thesis
    unfolding content_retention_score_def retention_ratio_def Let_def py_div_Inr [OF m] bindE_Inr i l
    by (simp add: py_div_Inr pos)
qed

lemma retention_ratio_bounds: "0 \<le> retention_ratio xs \<and> retention_ratio xs \<le> 1"
proof -
  let ?s = "sorted_by_timestamp xs"
  have "0 \<le> fraction_correct (last3 ?s)"
    using fraction_correct_bounds by blast
  then have "0 < fraction_correct (take 3 ?s) \<Longrightarrow>
      0 \<le> fraction_correct (last3 ?s) / fraction_correct (take 3 ?s)"
    by simp
  then show ?thesis
    by (simp add: retention_ratio_def Let_def)
qed

lemma retention_loop_value:
  "retention_loop groups acc =
     Inr (acc @ map (\<lambda>g. retention_ratio (snd g)) (filter (\<lambda>g. 2 \<le> length (snd g)) groups))"
proof (induction groups acc rule: retention_loop.induct)
  case (1 retention_scores)
  then show ?case by simp
next
  case (2 cid content_interactions rest retention_scores)
  show ?case
  proof (cases "length content_interactions < 2")
    case True
    then show ?thesis using 2(1) by simp
  next
    case False
    then have ne: "content_interactions \<noteq> []" by auto
    show ?thesis
      using False 2(2) [OF False content_retention_score_value [OF ne]]
      by (simp add: content_retention_score_value [OF ne])
  qed
qed

lemma content_groups_value:
  "content_groups interactions =
     map (\<lambda>c. (c, interactions_of c interactions)) (first_occurrences (map content_id interactions))"
  using grouping_fold [of content_id "\<lambda>i. i" interactions]
  by (simp add: content_groups_def interactions_of_def)

lemma retention_value:
  "calculate_retention_effectiveness interactions = Inr (retention_spec interactions)"
proof -
  have "retention_loop (content_groups interactions) [] = Inr (retention_ratios interactions)"
    by (simp add: retention_loop_value content_groups_value retention_ratios_def
          filter_map comp_def)
  then show ?thesis
    by (simp add: calculate_retention_effectiveness_def retention_spec_def mean_Inr arithmetic_mean_def)
qed

lemma retention_three_right_three_wrong:
  assumes "map is_correct six = [True, True, True, False, False, False]"
    and "\<forall>i\<in>set six. content_id i = c"
    and "sorted (map (\<lambda>x. datetime_key (timestamp x)) six)"
  shows "retention_spec six = 0"
proof -
  obtain i1 i2 i3 i4 i5 i6 where six: "six = [i1, i2, i3, i4, i5, i6]"
    using assms(1) by (auto simp: map_eq_Cons_conv)
  have s: "sorted_by_timestamp six = six"
    unfolding sorted_by_timestamp_def using assms(3) by (rule sort_key_id_if_sorted)
  have f: "first_occurrences (map content_id six) = [c]"
    using assms(2) by (simp add: six first_occurrences_def)
  have g: "interactions_of c six = six"
    using assms(2) by (simp add: six interactions_of_def)
  have r: "retention_ratio six = 0"
    using assms(1) by (simp add: retention_ratio_def s Let_def) (simp add: six last3_def fraction_correct_def)
  show ?thesis
    by (simp add: retention_spec_def retention_ratios_def f g r arithmetic_mean_def) (simp add: six)
qed

text \<open>
  Claim C3. Retention effectiveness groups the interactions by content; for each content
  with at least 2 interactions it takes, in timestamp order, the mean correctness of the
  first 3 and of the last 3 interactions, forms later/initial when initial > 0 (else 0.5),
  capped at 1.0, and returns the arithmetic mean of these ratios, or 0.5 when no content has
  2 interactions (\<open>retention_spec\<close>). Six interactions of one content that are, in time
  order, three correct and then three wrong give 0.0.
\<close>

theorem retention_effectiveness_spec:
  "calculate_retention_effectiveness interactions = Inr (retention_spec interactions)
   \<and> (map is_correct six = [True, True, True, False, False, False]
        \<and> (\<forall>i\<in>set six. content_id i = c)
        \<and> sorted (map (\<lambda>x. datetime_key (timestamp x)) six)
      \<longrightarrow> calculate_retention_effectiveness six = Inr 0)"
proof (intro conjI impI)
  show "calculate_retention_effectiveness interactions = Inr (retention_spec interactions)"
    by (rule retention_value)
next
  assume h: "map is_correct six = [True, True, True, False, False, False]
        \<and> (\<forall>i\<in>set six. content_id i = c)
        \<and> sorted (map (\<lambda>x. datetime_key (timestamp x)) six)"
  have "retention_spec six = 0"
  proof (rule retention_three_right_three_wrong)
    show "map is_correct six = [True, True, True, False, False, False]"
      using h by (elim conjE)
    show "\<forall>i\<in>set six. content_id i = c"
      using h by (elim conjE)
    show "sorted (map (\<lambda>x. datetime_key (timestamp x)) six)"
      using h by (elim conjE)
  qed
  then show "calculate_retention_effectiveness six = Inr 0"
    by (simp add: retention_value)
qed

theorem retention_effectiveness_spec_witness:
  "calculate_retention_effectiveness example_six = Inr 0"
proof -
  have a: "map is_correct example_six = [True, True, True, False, False, False]"
    by (simp add: example_six_def example_interaction_def)
  have b: "\<forall>i\<in>set example_six. content_id i = ''c1''"
    by (simp add: example_six_def example_interaction_def)
  have c: "sorted (map (\<lambda>x. datetime_key (timestamp x)) example_six)"
    by (simp add: example_six_def example_interaction_def datetime_key_def)
  show ?thesis
    by (rule mp [OF conjunct2 [OF retention_effectiveness_spec [of example_six example_six "''c1''"]]])
       (intro conjI a b c)
qed

subsection \<open>Difficulty trend\<close>

lemma sum_list_pairs:
  fixes f g :: "'a \<Rightarrow> real"
  shows "(\<Sum>i\<leftarrow>xs. (b * f i - c * g i)\<^sup>2)
       = b\<^sup>2 * (\<Sum>i\<leftarrow>xs. (f i)\<^sup>2) - 2 * b * c * (\<Sum>i\<leftarrow>xs. f i * g i) + c\<^sup>2 * (\<Sum>i\<leftarrow>xs. (g i)\<^sup>2)"
  by (induction xs) (simp_all add: power2_eq_square algebra_simps)

lemma sum_list_squares_nonneg:
  fixes f :: "'a \<Rightarrow> real"
  shows "0 \<le> (\<Sum>i\<leftarrow>xs. (f i)\<^sup>2)"
  by (induction xs) simp_all

lemma sum_list_squares_zero:
  fixes f :: "'a \<Rightarrow> real"
  shows "(\<Sum>i\<leftarrow>xs. (f i)\<^sup>2) = 0 \<Longrightarrow> i \<in> set xs \<Longrightarrow> f i = 0"
proof (induction xs)
  case Nil
  then show ?case by simp
next
  case (Cons a xs)
  have "0 \<le> (\<Sum>i\<leftarrow>xs. (f i)\<^sup>2)" by (rule sum_list_squares_nonneg)
  moreover have "0 \<le> (f a)\<^sup>2" by simp
  moreover have "(f a)\<^sup>2 + (\<Sum>i\<leftarrow>xs. (f i)\<^sup>2) = 0" using Cons.prems(1) by simp
  ultimately have "(f a)\<^sup>2 = 0" "(\<Sum>i\<leftarrow>xs. (f i)\<^sup>2) = 0" by linarith+
  then show ?case using Cons by auto
qed

lemma cauchy_schwarz_list:
  fixes f g :: "'a \<Rightarrow> real"
  shows "(\<Sum>i\<leftarrow>xs. f i * g i)\<^sup>2 \<le> (\<Sum>i\<leftarrow>xs. (f i)\<^sup>2) * (\<Sum>i\<leftarrow>xs. (g i)\<^sup>2)"
proof -
  let ?A = "\<Sum>i\<leftarrow>xs. (f i)\<^sup>2" and ?B = "\<Sum>i\<leftarrow>xs. (g i)\<^sup>2" and ?C = "\<Sum>i\<leftarrow>xs. f i * g i"
  have B0: "0 \<le> ?B" by (rule sum_list_squares_nonneg)
  show ?thesis
  proof (cases "?B = 0")
    case True
    then have "\<And>i. i \<in> set xs \<Longrightarrow> f i * g i = 0"
      using sum_list_squares_zero [of g xs] by simp
    then have "map (\<lambda>i. f i * g i) xs = map (\<lambda>i. 0) xs" by (intro map_cong) simp_all
    then have "?C = (\<Sum>i\<leftarrow>xs. 0)" by (rule arg_cong)
    then have "?C = 0" by simp
    then show ?thesis using True by simp
  next
    case False
    then have Bpos: "0 < ?B" using B0 by simp
    have "0 \<le> (\<Sum>i\<leftarrow>xs. (?B * f i - ?C * g i)\<^sup>2)" by (rule sum_list_squares_nonneg)
    also have "\<dots> = ?B\<^sup>2 * ?A - 2 * ?B * ?C * ?C + ?C\<^sup>2 * ?B" by (rule sum_list_pairs)
    also have "\<dots> = ?B * (?A * ?B - ?C\<^sup>2)" by (simp add: power2_eq_square algebra_simps)
    finally have "0 \<le> ?A * ?B - ?C\<^sup>2" using Bpos by (simp add: zero_le_mult_iff)
    then show ?thesis by simp
  qed
qed

lemma correlation_lower:
  fixes num dx dy :: real
  assumes "num\<^sup>2 \<le> dx * dy" and "0 < dx * dy"
  shows "- 1 \<le> num / sqrt (dx * dy)"
proof -
  have "\<bar>num\<bar> \<le> sqrt (dx * dy)"
    using assms(1) by (metis real_sqrt_abs real_sqrt_le_iff)
  then have "- sqrt (dx * dy) \<le> num" by simp
  moreover have "0 < sqrt (dx * dy)" using assms(2) by simp
  ultimately show ?thesis by (simp add: pos_le_divide_eq)
qed

lemma sum_list_zip_fst:
  fixes F :: "'a \<Rightarrow> real"
  assumes "length xs = length ys"
  shows "(\<Sum>(x, y)\<leftarrow>zip xs ys. F x) = (\<Sum>x\<leftarrow>xs. F x)"
proof -
  have "map (\<lambda>(x, y). F x) (zip xs ys) = map F (map fst (zip xs ys))"
    by (simp add: case_prod_unfold comp_def)
  then show ?thesis using assms by simp
qed

lemma sum_list_zip_snd:
  fixes F :: "'b \<Rightarrow> real"
  assumes "length xs = length ys"
  shows "(\<Sum>(x, y)\<leftarrow>zip xs ys. F y) = (\<Sum>y\<leftarrow>ys. F y)"
proof -
  have "map (\<lambda>(x, y). F y) (zip xs ys) = map F (map snd (zip xs ys))"
    by (simp add: case_prod_unfold comp_def)
  then show ?thesis using assms by simp
qed

lemma pearson_lower:
  assumes "length xs = length ys" and "0 < sum_sq_dev xs * sum_sq_dev ys"
  shows "- 1 \<le> pearson xs ys"
proof -
  let ?mx = "arithmetic_mean xs" and ?my = "arithmetic_mean ys"
  have "(\<Sum>p\<leftarrow>zip xs ys. (case p of (x, y) \<Rightarrow> x - ?mx) * (case p of (x, y) \<Rightarrow> y - ?my))\<^sup>2
      \<le> (\<Sum>p\<leftarrow>zip xs ys. (case p of (x, y) \<Rightarrow> x - ?mx)\<^sup>2)
        * (\<Sum>p\<leftarrow>zip xs ys. (case p of (x, y) \<Rightarrow> y - ?my)\<^sup>2)"
    by (rule cauchy_schwarz_list)
  moreover have "(\<Sum>p\<leftarrow>zip xs ys. (case p of (x, y) \<Rightarrow> x - ?mx)\<^sup>2) = sum_sq_dev xs"
    using sum_list_zip_fst [OF assms(1), of "\<lambda>x. (x - ?mx)\<^sup>2"]
    by (simp add: sum_sq_dev_def case_prod_unfold)
  moreover have "(\<Sum>p\<leftarrow>zip xs ys. (case p of (x, y) \<Rightarrow> y - ?my)\<^sup>2) = sum_sq_dev ys"
    using sum_list_zip_snd [OF assms(1), of "\<lambda>y. (y - ?my)\<^sup>2"]
    by (simp add: sum_sq_dev_def case_prod_unfold)
  ultimately have "(\<Sum>(x, y)\<leftarrow>zip xs ys. (x - ?mx) * (y - ?my))\<^sup>2 \<le> sum_sq_dev xs * sum_sq_dev ys"
    by (simp add: case_prod_unfold)
  then show ?thesis
    unfolding pearson_def using assms(2) by (rule correlation_lower)
qed

lemma index_sum_zip:
  fixes ds :: "int list" and F :: "real \<Rightarrow> real \<Rightarrow> real"
  shows "(\<Sum>i\<leftarrow>[0..<length ds]. F (real ([0..<length ds] ! i)) (real_of_int (ds ! i)))
       = (\<Sum>(x, y)\<leftarrow>zip (map real [0..<length ds]) (map real_of_int ds). F x y)"
  by (rule arg_cong [where f = sum_list]) (auto intro!: nth_equalityI)

lemma index_sum_x:
  fixes F :: "real \<Rightarrow> real"
  shows "(\<Sum>i\<leftarrow>[0..<n]. F (real ([0..<n] ! i))) = (\<Sum>x\<leftarrow>map real [0..<n]. F x)"
  by (rule arg_cong [where f = sum_list]) (auto intro!: nth_equalityI)

lemma index_sum_y:
  fixes ds :: "int list" and F :: "real \<Rightarrow> real"
  shows "(\<Sum>i\<leftarrow>[0..<length ds]. F (real_of_int (ds ! i))) = (\<Sum>y\<leftarrow>map real_of_int ds. F y)"
  by (rule arg_cong [where f = sum_list]) (auto intro!: nth_equalityI)

lemma sum_sq_dev_nonneg: "0 \<le> sum_sq_dev xs"
  unfolding sum_sq_dev_def by (rule sum_list_squares_nonneg)

lemma trend_value:
  "calculate_difficulty_trend interactions = Inr (trend_spec interactions)"
proof (cases "length interactions < 3")
  case True
  then show ?thesis by (simp add: calculate_difficulty_trend_def trend_spec_def)
next
  case False
  define ds where "ds = map (\<lambda>i. difficulty_values (difficulty_level i)) (sorted_by_timestamp interactions)"
  define xs where "xs = order_index (length interactions)"
  define ys where "ys = difficulty_series interactions"
  have n: "length ds = length interactions" by (simp add: ds_def)
  have ys: "ys = map real_of_int ds" by (simp add: ys_def ds_def difficulty_series_def)
  have xs: "xs = map real [0..<length ds]" by (simp add: xs_def order_index_def n)
  have len: "length xs = length ys" by (simp add: xs ys)
  have n0: "real (length ds) \<noteq> 0" using False n by auto
  have g1: "(length interactions < 3) = False" using False by simp
  have g2: "(length ds < 2) = False" using False n by simp
  have mx: "real (sum_list [0..<length ds]) / real (length ds) = arithmetic_mean xs"
    by (simp add: arithmetic_mean_def xs sum_list_of_nat)
  have my: "real_of_int (sum_list ds) / real (length ds) = arithmetic_mean ys"
    by (simp add: arithmetic_mean_def ys sum_list_of_int)
  have num: "(\<Sum>i\<leftarrow>[0..<length ds]. (real ([0..<length ds] ! i) - arithmetic_mean xs)
                * (real_of_int (ds ! i) - arithmetic_mean ys))
      = (\<Sum>(x, y)\<leftarrow>zip xs ys. (x - arithmetic_mean xs) * (y - arithmetic_mean ys))"
    unfolding xs ys by (rule index_sum_zip)
  have dx: "(\<Sum>i\<leftarrow>[0..<length ds]. (real ([0..<length ds] ! i) - arithmetic_mean xs)\<^sup>2) = sum_sq_dev xs"
    unfolding sum_sq_dev_def xs by (rule index_sum_x)
  have dy: "(\<Sum>i\<leftarrow>[0..<length ds]. (real_of_int (ds ! i) - arithmetic_mean ys)\<^sup>2) = sum_sq_dev ys"
    unfolding sum_sq_dev_def ys by (rule index_sum_y)
  have code: "calculate_difficulty_trend interactions =
      (if sum_sq_dev xs = 0 \<or> sum_sq_dev ys = 0 then Inr 0.5
       else bindE (py_sqrt (sum_sq_dev xs * sum_sq_dev ys)) (\<lambda>root.
            bindE (py_div (\<Sum>(x, y)\<leftarrow>zip xs ys. (x - arithmetic_mean xs) * (y - arithmetic_mean ys)) root)
              (\<lambda>correlation. Inr (max 0 ((correlation + 1) / 2)))))"
    unfolding calculate_difficulty_trend_def Let_def ds_def [symmetric]
    by (simp only: g1 g2 if_False py_div_Inr [OF n0] bindE_Inr mx my num dx dy)
  show ?thesis
  proof (cases "sum_sq_dev xs = 0 \<or> sum_sq_dev ys = 0")
    case True
    then show ?thesis
      using code by (simp add: trend_spec_def Let_def xs_def ys_def)
  next
    case nz: False
    then have pos: "0 < sum_sq_dev xs * sum_sq_dev ys"
      using sum_sq_dev_nonneg [of xs] sum_sq_dev_nonneg [of ys] by (simp add: zero_less_mult_iff)
    have root: "sqrt (sum_sq_dev xs * sum_sq_dev ys) \<noteq> 0"
      using real_sqrt_gt_zero [OF pos] by linarith
    have low: "- 1 \<le> pearson xs ys" using len pos by (rule pearson_lower)
    have "calculate_difficulty_trend interactions = Inr (max 0 ((pearson xs ys + 1) / 2))"
      using nz pos root unfolding code
      by (simp add: py_sqrt_def py_div_Inr pearson_def)
    also have "max 0 ((pearson xs ys + 1) / 2) = (pearson xs ys + 1) / 2"
      using low by simp
    finally show ?thesis
      using nz False by (simp add: trend_spec_def Let_def xs_def ys_def)
  qed
qed

lemma constant_step_nth:
  "constant_step d ys \<Longrightarrow> i < length ys \<Longrightarrow> ys ! i = hd ys + d * int i"
proof (induction d ys arbitrary: i rule: constant_step.induct)
  case (1 d y z ys)
  from 1(2) have zy: "z = y + d" and cs: "constant_step d (z # ys)" by auto
  show ?case
  proof (cases i)
    case 0
    then show ?thesis by simp
  next
    case (Suc j)
    then have "j < length (z # ys)" using 1(3) by simp
    from 1(1) [OF cs this] have "(z # ys) ! j = z + d * int j" by simp
    then show ?thesis using Suc zy by (simp add: algebra_simps)
  qed
qed simp_all

lemma constant_step_series:
  assumes "constant_step d ys"
  shows "map real_of_int ys = map (\<lambda>x. real_of_int (hd ys) + real_of_int d * x) (map real [0..<length ys])"
  using constant_step_nth [OF assms] by (auto intro!: nth_equalityI)

lemma arithmetic_mean_affine:
  assumes "xs \<noteq> []"
  shows "arithmetic_mean (map (\<lambda>x. a + d * x) xs) = a + d * arithmetic_mean xs"
proof -
  have "sum_list (map (\<lambda>x. a + d * x) xs) = a * real (length xs) + d * sum_list xs"
    by (induction xs) (simp_all add: algebra_simps)
  then show ?thesis
    using assms by (simp add: arithmetic_mean_def add_divide_distrib)
qed

lemma affine_deviation:
  fixes a d x m :: real
  shows "a + d * x - (a + d * m) = d * (x - m)"
  by (simp add: algebra_simps)

lemma sum_sq_dev_affine:
  assumes "xs \<noteq> []"
  shows "sum_sq_dev (map (\<lambda>x. a + d * x) xs) = d\<^sup>2 * sum_sq_dev xs"
proof -
  have h: "(\<Sum>x\<leftarrow>xs. (d * (x - m))\<^sup>2) = d\<^sup>2 * (\<Sum>x\<leftarrow>xs. (x - m)\<^sup>2)" for m
    by (induction xs) (simp_all add: power_mult_distrib distrib_left)
  show ?thesis
    unfolding sum_sq_dev_def arithmetic_mean_affine [OF assms]
    by (simp only: map_map comp_def affine_deviation h)
qed

lemma covariance_affine:
  assumes "xs \<noteq> []"
  shows "(\<Sum>(x, y)\<leftarrow>zip xs (map (\<lambda>x. a + d * x) xs).
            (x - arithmetic_mean xs) * (y - arithmetic_mean (map (\<lambda>x. a + d * x) xs)))
         = d * sum_sq_dev xs"
proof -
  have z: "zip xs (map (\<lambda>x. a + d * x) xs) = map (\<lambda>x. (x, a + d * x)) xs"
    by (induction xs) simp_all
  have h: "(\<Sum>x\<leftarrow>xs. (x - m) * (d * (x - m))) = d * (\<Sum>x\<leftarrow>xs. (x - m)\<^sup>2)" for m
    by (induction xs) (simp_all add: power2_eq_square distrib_left)
  show ?thesis
    unfolding sum_sq_dev_def arithmetic_mean_affine [OF assms] z
    by (simp only: map_map comp_def prod.case affine_deviation h)
qed

lemma pearson_affine:
  assumes "xs \<noteq> []" and "sum_sq_dev xs \<noteq> 0" and "d \<noteq> 0"
  shows "pearson xs (map (\<lambda>x. a + d * x) xs) = sgn d"
proof -
  have s: "0 < sum_sq_dev xs" using assms(2) sum_sq_dev_nonneg [of xs] by simp
  have "sqrt (sum_sq_dev xs * (d\<^sup>2 * sum_sq_dev xs)) = sqrt ((d * sum_sq_dev xs)\<^sup>2)"
    by (simp add: power2_eq_square algebra_simps)
  also have "\<dots> = \<bar>d\<bar> * sum_sq_dev xs"
    using s by (simp add: abs_mult)
  finally show ?thesis
    unfolding pearson_def covariance_affine [OF assms(1)] sum_sq_dev_affine [OF assms(1)]
    using s assms(3) by (simp add: sgn_real_def)
qed

lemma order_index_variance:
  assumes "2 \<le> n"
  shows "sum_sq_dev (order_index n) \<noteq> 0"
proof
  assume z: "sum_sq_dev (order_index n) = 0"
  let ?m = "arithmetic_mean (order_index n)"
  have mem: "real 0 \<in> set (order_index n)" "real 1 \<in> set (order_index n)"
    using assms by (auto simp: order_index_def)
  have "real 0 - ?m = 0" "real 1 - ?m = 0"
    using sum_list_squares_zero [of "\<lambda>x. x - ?m" "order_index n"] z mem
    unfolding sum_sq_dev_def by blast+
  then show False by simp
qed

lemma trend_constant_step:
  assumes "3 \<le> length interactions"
    and "constant_step d (difficulties_in_time_order interactions)"
    and "d \<noteq> 0"
  shows "trend_spec interactions = (sgn (real_of_int d) + 1) / 2"
proof -
  let ?n = "length interactions"
  let ?ds = "difficulties_in_time_order interactions"
  let ?f = "\<lambda>x. real_of_int (hd ?ds) + real_of_int d * x"
  have n: "length ?ds = ?n" by (simp add: difficulties_in_time_order_def)
  have ne: "order_index ?n \<noteq> []" using assms(1) by (auto simp: order_index_def)
  have var: "sum_sq_dev (order_index ?n) \<noteq> 0" using assms(1) by (intro order_index_variance) simp
  have ys: "difficulty_series interactions = map ?f (order_index ?n)"
    using constant_step_series [OF assms(2)]
    by (simp add: difficulty_series_def difficulties_in_time_order_def order_index_def comp_def)
  have vy: "sum_sq_dev (difficulty_series interactions) \<noteq> 0"
    unfolding ys sum_sq_dev_affine [OF ne] using var assms(3) by simp
  have "pearson (order_index ?n) (difficulty_series interactions) = sgn (real_of_int d)"
    unfolding ys using ne var assms(3) by (intro pearson_affine) simp_all
  then show ?thesis
    using assms(1) var vy by (simp add: trend_spec_def Let_def)
qed

lemma example_levels_sorted:
  "sorted_by_timestamp (example_levels [a, b, c]) = example_levels [a, b, c]"
  by (simp add: sorted_by_timestamp_def example_levels_def example_interaction_def datetime_key_def upt_rec)

lemma example_levels_difficulties:
  "difficulties_in_time_order (example_levels [a, b, c])
     = [difficulty_values a, difficulty_values b, difficulty_values c]"
  by (simp add: difficulties_in_time_order_def example_levels_sorted)
     (simp add: example_levels_def example_interaction_def upt_rec)

lemma order_index_3: "order_index 3 = [0, 1, 2]"
  by (simp add: order_index_def upt_rec numeral_3_eq_3)

text \<open>
  Against claim C5 as stated: the levels beginner, elementary, advanced are strictly
  increasing in timestamp order, yet the trend component is not 1.0 (the correlation is
  \<open>3 / sqrt (28 / 3)\<close>, about 0.98).
\<close>

theorem strictly_increasing_trend_counterexample:
  "3 \<le> length (example_levels [BEGINNER, ELEMENTARY, ADVANCED])
   \<and> sorted_wrt (<) (difficulties_in_time_order (example_levels [BEGINNER, ELEMENTARY, ADVANCED]))
   \<and> calculate_difficulty_trend (example_levels [BEGINNER, ELEMENTARY, ADVANCED]) \<noteq> Inr 1"
proof -
  let ?ex = "example_levels [BEGINNER, ELEMENTARY, ADVANCED]"
  have len: "length ?ex = 3" by (simp add: example_levels_def)
  have ds: "difficulties_in_time_order ?ex = [1, 2, 4]"
    by (simp add: example_levels_difficulties)
  have "difficulty_series ?ex = map real_of_int (difficulties_in_time_order ?ex)"
    by (simp add: difficulty_series_def difficulties_in_time_order_def comp_def)
  then have ys: "difficulty_series ?ex = [1, 2, 4]"
    unfolding ds by simp
  have vx: "sum_sq_dev [0, 1, 2] = 2"
    by (simp add: sum_sq_dev_def arithmetic_mean_def power2_eq_square)
  have vy: "sum_sq_dev [1, 2, 4] = 14 / 3"
    by (simp add: sum_sq_dev_def arithmetic_mean_def power2_eq_square)
  have p: "pearson [0, 1, 2] [1, 2, 4] = 3 / sqrt (28 / 3)"
    by (simp add: pearson_def vx vy) (simp add: arithmetic_mean_def)
  have t: "trend_spec ?ex = (3 / sqrt (28 / 3) + 1) / 2"
    by (simp add: trend_spec_def Let_def len order_index_3 ys vx vy p)
  have "sqrt (28 / 3) \<noteq> 3"
  proof
    assume "sqrt (28 / 3) = 3"
    then have "(sqrt (28 / 3))\<^sup>2 = 3\<^sup>2" by simp
    then show False by simp
  qed
  then have "3 / sqrt (28 / 3) \<noteq> 1" by (simp add: divide_eq_eq)
  then have "trend_spec ?ex \<noteq> 1" unfolding t by simp
  then show ?thesis
    by (simp add: trend_value ds len)
qed

text \<open>
  Claim C5, amended. The difficulty-trend component is the Pearson correlation between the
  interaction order index and the difficulty level mapped to 1..5, rescaled via (r+1)/2
  (\<open>trend_spec\<close>). For every interaction sequence of length at least 3 whose difficulty
  levels, in timestamp order, rise by the same step \<open>d > 0\<close> from each interaction to the
  next it equals 1.0; when they fall by the same step it equals 0.0; and it equals 0.5 when
  there are fewer than 3 interactions or either series has zero variance.
\<close>

theorem difficulty_trend_spec:
  "calculate_difficulty_trend interactions = Inr (trend_spec interactions)
   \<and> (3 \<le> length interactions \<and> 0 < d
        \<and> constant_step d (difficulties_in_time_order interactions)
      \<longrightarrow> calculate_difficulty_trend interactions = Inr 1)
   \<and> (3 \<le> length interactions \<and> d < 0
        \<and> constant_step d (difficulties_in_time_order interactions)
      \<longrightarrow> calculate_difficulty_trend interactions = Inr 0)
   \<and> (length interactions < 3
        \<or> sum_sq_dev (order_index (length interactions)) = 0
        \<or> sum_sq_dev (difficulty_series interactions) = 0
      \<longrightarrow> calculate_difficulty_trend interactions = Inr 0.5)"
proof (intro conjI impI)
  show "calculate_difficulty_trend interactions = Inr (trend_spec interactions)"
    by (rule trend_value)
next
  assume h: "3 \<le> length interactions \<and> 0 < d
        \<and> constant_step d (difficulties_in_time_order interactions)"
  then have "trend_spec interactions = (sgn (real_of_int d) + 1) / 2"
    by (intro trend_constant_step) simp_all
  then show "calculate_difficulty_trend interactions = Inr 1"
    using h by (simp add: trend_value)
next
  assume h: "3 \<le> length interactions \<and> d < 0
        \<and> constant_step d (difficulties_in_time_order interactions)"
  then have "trend_spec interactions = (sgn (real_of_int d) + 1) / 2"
    by (intro trend_constant_step) simp_all
  then show "calculate_difficulty_trend interactions = Inr 0"
    using h by (simp add: trend_value)
next
  assume "length interactions < 3
        \<or> sum_sq_dev (order_index (length interactions)) = 0
        \<or> sum_sq_dev (difficulty_series interactions) = 0"
  then have "trend_spec interactions = 0.5"
    by (auto simp: trend_spec_def Let_def)
  then show "calculate_difficulty_trend interactions = Inr 0.5"
    by (simp add: trend_value)
qed

theorem difficulty_trend_spec_witness:
  "calculate_difficulty_trend (example_levels [BEGINNER, INTERMEDIATE, NATIVE]) = Inr 1
   \<and> calculate_difficulty_trend (example_levels [ADVANCED, INTERMEDIATE, ELEMENTARY]) = Inr 0
   \<and> calculate_difficulty_trend (example_levels [BEGINNER, NATIVE]) = Inr 0.5"
proof -
  have up: "3 \<le> length (example_levels [BEGINNER, INTERMEDIATE, NATIVE]) \<and> (0::int) < 2
      \<and> constant_step 2 (difficulties_in_time_order (example_levels [BEGINNER, INTERMEDIATE, NATIVE]))"
    by (simp add: example_levels_difficulties) (simp add: example_levels_def)
  have down: "3 \<le> length (example_levels [ADVANCED, INTERMEDIATE, ELEMENTARY]) \<and> (- 1::int) < 0
      \<and> constant_step (- 1) (difficulties_in_time_order (example_levels [ADVANCED, INTERMEDIATE, ELEMENTARY]))"
    by (simp add: example_levels_difficulties) (simp add: example_levels_def)
  have few: "length (example_levels [BEGINNER, NATIVE]) < 3" by (simp add: example_levels_def)
  have a: "calculate_difficulty_trend (example_levels [BEGINNER, INTERMEDIATE, NATIVE]) = Inr 1"
    by (rule mp [OF conjunct1 [OF conjunct2 [OF difficulty_trend_spec]]]) (rule up)
  have b: "calculate_difficulty_trend (example_levels [ADVANCED, INTERMEDIATE, ELEMENTARY]) = Inr 0"
    by (rule mp [OF conjunct1 [OF conjunct2 [OF conjunct2 [OF difficulty_trend_spec]]]]) (rule down)
  have c: "calculate_difficulty_trend (example_levels [BEGINNER, NATIVE]) = Inr 0.5"
    by (rule mp [OF conjunct2 [OF conjunct2 [OF conjunct2 [OF difficulty_trend_spec]]]])
       (rule disjI1, rule few)
  show ?thesis
    by (intro conjI a b c)
qed

subsection \<open>Real-time effectiveness and the bounds of all scores\<close>

lemma real_time_nonempty:
  assumes "interactions \<noteq> []"
  shows "calculate_real_time_effectiveness interactions =
     Inr (min (max (fraction_correct interactions * 0.4
                    + max 0 (1 - arithmetic_mean (map response_time_seconds interactions) / 30) * 0.2
                    + mean_confidence interactions * 0.2
                    + trend_spec interactions * 0.2) 0) 1)"
  using assms
  by (simp add: calculate_real_time_effectiveness_def py_div_Inr mean_Inr Let_def trend_value
        fraction_correct_def arithmetic_mean_def count_correct_def mean_confidence_def)

lemma real_time_bounds:
  "in_unit_interval (calculate_real_time_effectiveness interactions)"
proof (cases "interactions = []")
  case True
  then show ?thesis by (simp add: calculate_real_time_effectiveness_def)
next
  case False
  show ?thesis
    unfolding real_time_nonempty [OF False] in_unit_interval_Inr by simp
qed

lemma retention_bounds:
  "in_unit_interval (calculate_retention_effectiveness interactions)"
proof (cases "retention_ratios interactions = []")
  case True
  then show ?thesis by (simp add: retention_value retention_spec_def)
next
  case False
  have "\<And>s. s \<in> set (retention_ratios interactions) \<Longrightarrow> 0 \<le> s \<and> s \<le> 1"
    using retention_ratio_bounds by (auto simp: retention_ratios_def)
  then have "0 \<le> arithmetic_mean (retention_ratios interactions)"
      "arithmetic_mean (retention_ratios interactions) \<le> 1"
    using False by (auto intro: arithmetic_mean_lower arithmetic_mean_upper)
  then show ?thesis
    using False by (simp add: retention_value retention_spec_def)
qed

lemma progression_bounds:
  assumes "0 \<le> dict_get progress_data ''difficulty_progression'' 0"
    and "0 \<le> dict_get progress_data ''mastery_rate'' 0"
    and "0 \<le> dict_get progress_data ''learning_velocity'' 0"
  shows "in_unit_interval (calculate_progression_effectiveness progress_data)"
proof (cases "progress_data = []")
  case True
  then show ?thesis by (simp add: calculate_progression_effectiveness_def)
next
  case False
  let ?p = "min (dict_get progress_data ''difficulty_progression'' 0 / 5) 1"
  let ?m = "min (dict_get progress_data ''mastery_rate'' 0 / 1) 1"
  let ?v = "min (dict_get progress_data ''learning_velocity'' 0 / 10) 1"
  have "0 \<le> ?p" "?p \<le> 1" "0 \<le> ?m" "?m \<le> 1" "0 \<le> ?v" "?v \<le> 1"
    using assms by simp_all
  then have "0 \<le> ?p * 0.4 + ?m * 0.4 + ?v * 0.2 \<and> ?p * 0.4 + ?m * 0.4 + ?v * 0.2 \<le> 1"
    by simp
  then show ?thesis
    unfolding progression_nonempty [OF False] in_unit_interval_Inr .
qed

lemma in_unit_intervalE:
  assumes "in_unit_interval r"
  obtains v where "r = Inr v" "0 \<le> v" "v \<le> 1"
  using assms by (cases r) (auto simp: in_unit_interval_def)

lemma overall_score_bounds:
  assumes "0 \<le> i" "i \<le> 1" "0 \<le> r" "r \<le> 1" "0 \<le> p" "p \<le> 1"
  shows "0 \<le> overall_score i r p \<and> overall_score i r p \<le> 1"
  using assms by (simp add: overall_score_def)

lemma composite_bounds:
  assumes "in_unit_interval (calculate_immediate_effectiveness interactions)"
    and "in_unit_interval (calculate_retention_effectiveness interactions)"
    and "in_unit_interval (calculate_progression_effectiveness progress_data)"
  shows "in_unit_interval
           (bindE (calculate_immediate_effectiveness interactions) (\<lambda>immediate.
            bindE (calculate_retention_effectiveness interactions) (\<lambda>retention.
            bindE (calculate_progression_effectiveness progress_data) (\<lambda>progression.
            Inr (overall_score immediate retention progression)))))"
    and "0 \<le> overall_effectiveness (analyze_user_scores interactions progress_data)
         \<and> overall_effectiveness (analyze_user_scores interactions progress_data) \<le> 1"
proof -
  obtain i where i: "calculate_immediate_effectiveness interactions = Inr i" "0 \<le> i" "i \<le> 1"
    using assms(1) by (rule in_unit_intervalE)
  obtain r where r: "calculate_retention_effectiveness interactions = Inr r" "0 \<le> r" "r \<le> 1"
    using assms(2) by (rule in_unit_intervalE)
  obtain p where p: "calculate_progression_effectiveness progress_data = Inr p" "0 \<le> p" "p \<le> 1"
    using assms(3) by (rule in_unit_intervalE)
  have b: "0 \<le> overall_score i r p \<and> overall_score i r p \<le> 1"
    using i r p by (intro overall_score_bounds)
  show "in_unit_interval
           (bindE (calculate_immediate_effectiveness interactions) (\<lambda>immediate.
            bindE (calculate_retention_effectiveness interactions) (\<lambda>retention.
            bindE (calculate_progression_effectiveness progress_data) (\<lambda>progression.
            Inr (overall_score immediate retention progression)))))"
    using b by (simp add: i r p)
  show "0 \<le> overall_effectiveness (analyze_user_scores interactions progress_data)
         \<and> overall_effectiveness (analyze_user_scores interactions progress_data) \<le> 1"
    using b by (simp add: analyze_user_scores_def create_empty_analysis_def i r p)
qed

text \<open>
  Claim C1. For every interaction sequence whose records satisfy the invariants of the data
  model (latency at least 0, hint count at least 0, attempt count at least 1, confidence,
  when present, in [0, 1]) and every progression summary with mastery_rate in [0, 1] and
  non-negative difficulty_progression and learning_velocity, each of the immediate,
  retention, progression, composite (weights 0.4, 0.4, 0.2, also as stored by the
  analysis) and real-time scores is returned and lies in [0, 1].
\<close>

theorem scores_in_unit_interval:
  assumes "\<forall>i\<in>set interactions. valid_interaction i"
    and "0 \<le> dict_get progress_data ''mastery_rate'' 0 \<and> dict_get progress_data ''mastery_rate'' 0 \<le> 1"
    and "0 \<le> dict_get progress_data ''difficulty_progression'' 0"
    and "0 \<le> dict_get progress_data ''learning_velocity'' 0"
  shows "in_unit_interval (calculate_immediate_effectiveness interactions)
     \<and> in_unit_interval (calculate_retention_effectiveness interactions)
     \<and> in_unit_interval (calculate_progression_effectiveness progress_data)
     \<and> in_unit_interval
           (bindE (calculate_immediate_effectiveness interactions) (\<lambda>immediate.
            bindE (calculate_retention_effectiveness interactions) (\<lambda>retention.
            bindE (calculate_progression_effectiveness progress_data) (\<lambda>progression.
            Inr (overall_score immediate retention progression)))))
     \<and> 0 \<le> overall_effectiveness (analyze_user_scores interactions progress_data)
     \<and> overall_effectiveness (analyze_user_scores interactions progress_data) \<le> 1
     \<and> in_unit_interval (calculate_real_time_effectiveness interactions)"
proof -
  have i: "in_unit_interval (calculate_immediate_effectiveness interactions)"
    using assms(1) by (intro immediate_bounds) simp
  have r: "in_unit_interval (calculate_retention_effectiveness interactions)"
    by (rule retention_bounds)
  have p: "in_unit_interval (calculate_progression_effectiveness progress_data)"
    using assms(2-4) by (intro progression_bounds) simp_all
  show ?thesis
    using i r p composite_bounds [OF i r p] real_time_bounds [of interactions] by blast
qed

theorem scores_in_unit_interval_witness:
  "in_unit_interval (calculate_immediate_effectiveness example_six)
     \<and> in_unit_interval (calculate_retention_effectiveness example_six)
     \<and> in_unit_interval (calculate_progression_effectiveness example_progress)
     \<and> in_unit_interval
           (bindE (calculate_immediate_effectiveness example_six) (\<lambda>immediate.
            bindE (calculate_retention_effectiveness example_six) (\<lambda>retention.
            bindE (calculate_progression_effectiveness example_progress) (\<lambda>progression.
            Inr (overall_score immediate retention progression)))))
     \<and> 0 \<le> overall_effectiveness (analyze_user_scores example_six example_progress)
     \<and> overall_effectiveness (analyze_user_scores example_six example_progress) \<le> 1
     \<and> in_unit_interval (calculate_real_time_effectiveness example_six)"
proof (rule scores_in_unit_interval)
  show "\<forall>i\<in>set example_six. valid_interaction i"
    by (simp add: example_six_def example_interaction_def valid_interaction_def)
  show "0 \<le> dict_get example_progress ''mastery_rate'' 0 \<and> dict_get example_progress ''mastery_rate'' 0 \<le> 1"
    by (simp add: example_progress_def dict_get_def)
  show "0 \<le> dict_get example_progress ''difficulty_progression'' 0"
    by (simp add: example_progress_def dict_get_def)
  show "0 \<le> dict_get example_progress ''learning_velocity'' 0"
    by (simp add: example_progress_def dict_get_def)
qed

subsection \<open>Negative numbers, and quick clean answers\<close>

lemma returns_score_Inr [simp]: "returns_score (Inr v)"
  by (simp add: returns_score_def)

lemma in_unit_interval_returns: "in_unit_interval r \<Longrightarrow> returns_score r"
  by (cases r) (simp_all add: in_unit_interval_def returns_score_def)

lemma immediate_total: "returns_score (calculate_immediate_effectiveness interactions)"
proof (cases "interactions = []")
  case True
  then show ?thesis by (simp add: calculate_immediate_effectiveness_def)
next
  case False
  then show ?thesis by (simp add: immediate_nonempty)
qed

text \<open>
  Against claim C2 as stated: an interaction with a negative latency, a negative hint
  count and a negative attempt count is scored by all three operations; none raises, and
  the negative numbers carry the immediate score to 1.7.
\<close>

theorem negative_input_scored_counterexample:
  "response_time_seconds example_negative < 0
   \<and> hints_used example_negative < 0
   \<and> attempts example_negative < 0
   \<and> calculate_immediate_effectiveness [example_negative] = Inr 1.7
   \<and> calculate_retention_effectiveness [example_negative] = Inr 0.5
   \<and> calculate_real_time_effectiveness [example_negative] = Inr 1"
proof -
  have i: "calculate_immediate_effectiveness [example_negative] = Inr 1.7"
    by (simp add: immediate_nonempty fraction_correct_def arithmetic_mean_def
          example_negative_def example_interaction_def)
  have r: "calculate_retention_effectiveness [example_negative] = Inr 0.5"
    by (simp add: retention_value retention_spec_def retention_ratios_def
          first_occurrences_def interactions_of_def)
  have t: "trend_spec [example_negative] = 0.5"
    by (simp add: trend_spec_def Let_def)
  have rt: "calculate_real_time_effectiveness [example_negative] = Inr 1"
    by (simp add: real_time_nonempty t)
       (simp add: fraction_correct_def arithmetic_mean_def mean_confidence_def
          List.map_filter_def example_negative_def example_interaction_def)
  show ?thesis
    using i r rt by (simp add: example_negative_def example_interaction_def)
qed

lemma insort_key_map:
  assumes "\<And>x. k (f x) = k x"
  shows "insort_key k (f x) (map f ys) = map f (insort_key k x ys)"
  by (induction ys) (simp_all add: assms)

lemma sort_key_map:
  assumes "\<And>x. k (f x) = k x"
  shows "sort_key k (map f xs) = map f (sort_key k xs)"
  by (induction xs) (simp_all add: insort_key_map [of k f, OF assms])

lemma sorted_by_timestamp_map:
  assumes "\<And>i. timestamp (f i) = timestamp i"
  shows "sorted_by_timestamp (map f xs) = map f (sorted_by_timestamp xs)"
  unfolding sorted_by_timestamp_def by (rule sort_key_map) (simp add: assms)

lemma fraction_correct_map:
  assumes "\<And>i. is_correct (f i) = is_correct i"
  shows "fraction_correct (map f xs) = fraction_correct xs"
  by (simp add: fraction_correct_def filter_map comp_def assms)

lemma retention_ratio_map:
  assumes "\<And>i. timestamp (f i) = timestamp i" and "\<And>i. is_correct (f i) = is_correct i"
  shows "retention_ratio (map f xs) = retention_ratio xs"
proof -
  have t: "take 3 (map f (sorted_by_timestamp xs)) = map f (take 3 (sorted_by_timestamp xs))"
    by (simp add: take_map)
  have l: "last3 (map f (sorted_by_timestamp xs)) = map f (last3 (sorted_by_timestamp xs))"
    by (simp add: last3_def drop_map)
  show ?thesis
    unfolding retention_ratio_def Let_def sorted_by_timestamp_map [of f, OF assms(1)] t l
      fraction_correct_map [of f, OF assms(2)] ..
qed

lemma retention_spec_map:
  assumes "\<And>i. content_id (f i) = content_id i"
    and "\<And>i. timestamp (f i) = timestamp i"
    and "\<And>i. is_correct (f i) = is_correct i"
  shows "retention_spec (map f xs) = retention_spec xs"
proof -
  have i: "interactions_of c (map f xs) = map f (interactions_of c xs)" for c
    by (simp add: interactions_of_def filter_map comp_def assms(1))
  have c: "map content_id (map f xs) = map content_id xs"
    by (simp add: assms(1))
  have "retention_ratios (map f xs) = retention_ratios xs"
    unfolding retention_ratios_def c i retention_ratio_map [of f, OF assms(2,3)] by simp
  then show ?thesis by (simp add: retention_spec_def)
qed

lemma trend_spec_map:
  assumes "\<And>i. timestamp (f i) = timestamp i"
    and "\<And>i. difficulty_level (f i) = difficulty_level i"
  shows "trend_spec (map f xs) = trend_spec xs"
proof -
  have "difficulty_series (map f xs) = difficulty_series xs"
    by (simp add: difficulty_series_def sorted_by_timestamp_map [of f, OF assms(1)] comp_def assms(2))
  then show ?thesis by (simp add: trend_spec_def)
qed

lemma mean_confidence_map:
  assumes "\<And>i. confidence_level (f i) = confidence_level i"
  shows "mean_confidence (map f xs) = mean_confidence xs"
proof -
  have "List.map_filter confidence_level (map f xs) = List.map_filter confidence_level xs"
    by (induction xs) (simp_all add: List.map_filter_simps assms split: option.split)
  then show ?thesis by (simp add: mean_confidence_def)
qed

lemma real_time_map:
  assumes "\<And>i. is_correct (f i) = is_correct i"
    and "\<And>i. response_time_seconds (f i) = response_time_seconds i"
    and "\<And>i. confidence_level (f i) = confidence_level i"
    and "\<And>i. timestamp (f i) = timestamp i"
    and "\<And>i. difficulty_level (f i) = difficulty_level i"
  shows "calculate_real_time_effectiveness (map f xs) = calculate_real_time_effectiveness xs"
proof (cases "xs = []")
  case True
  then show ?thesis by simp
next
  case False
  then have ne: "map f xs \<noteq> []" by simp
  have l: "map response_time_seconds (map f xs) = map response_time_seconds xs"
    by (simp add: assms(2))
  show ?thesis
    unfolding real_time_nonempty [OF ne] real_time_nonempty [OF False] l
      fraction_correct_map [of f, OF assms(1)] mean_confidence_map [of f, OF assms(3)]
      trend_spec_map [of f, OF assms(4,5)] ..
qed

text \<open>
  Claim C2, amended. For every input, also one with a negative response latency, hint
  count or attempt count, each scoring operation (immediate, retention, real-time) returns
  a score and signals no error, and no value is rejected or coerced. Immediate
  effectiveness is its weighted formula over the latencies, hint counts and attempt counts
  as given. The real-time score is its weighted formula over the latencies as given,
  clamped into [0, 1] at the end, and does not depend on the hint or attempt counts.
  Retention effectiveness does not depend on latency, hint count or attempt count.
\<close>

theorem scoring_uses_values_as_given:
  "returns_score (calculate_immediate_effectiveness interactions)
   \<and> returns_score (calculate_retention_effectiveness interactions)
   \<and> returns_score (calculate_real_time_effectiveness interactions)
   \<and> calculate_immediate_effectiveness (i # rest) =
       Inr (fraction_correct (i # rest) * 0.5
            + max 0 (1 - arithmetic_mean (map response_time_seconds (i # rest)) / 30) * 0.3
            + max 0 (1 - arithmetic_mean (map (\<lambda>i. real_of_int (hints_used i)) (i # rest)) / 3
                       - (arithmetic_mean (map (\<lambda>i. real_of_int (attempts i)) (i # rest)) - 1) / 2) * 0.2)
   \<and> calculate_real_time_effectiveness (i # rest) =
       Inr (min (max (fraction_correct (i # rest) * 0.4
                      + max 0 (1 - arithmetic_mean (map response_time_seconds (i # rest)) / 30) * 0.2
                      + mean_confidence (i # rest) * 0.2
                      + trend_spec (i # rest) * 0.2) 0) 1)
   \<and> calculate_real_time_effectiveness
         (map (\<lambda>i. i\<lparr>hints_used := hints i, attempts := tries i\<rparr>) interactions)
       = calculate_real_time_effectiveness interactions
   \<and> calculate_retention_effectiveness
         (map (\<lambda>i. i\<lparr>response_time_seconds := latency i, hints_used := hints i,
                        attempts := tries i\<rparr>) interactions)
       = calculate_retention_effectiveness interactions"
proof (intro conjI)
  show "returns_score (calculate_immediate_effectiveness interactions)"
    by (rule immediate_total)
  show "returns_score (calculate_retention_effectiveness interactions)"
    by (simp add: retention_value)
  show "returns_score (calculate_real_time_effectiveness interactions)"
    by (simp add: real_time_bounds in_unit_interval_returns)
  show "calculate_immediate_effectiveness (i # rest) =
       Inr (fraction_correct (i # rest) * 0.5
            + max 0 (1 - arithmetic_mean (map response_time_seconds (i # rest)) / 30) * 0.3
            + max 0 (1 - arithmetic_mean (map (\<lambda>i. real_of_int (hints_used i)) (i # rest)) / 3
                       - (arithmetic_mean (map (\<lambda>i. real_of_int (attempts i)) (i # rest)) - 1) / 2) * 0.2)"
    by (rule immediate_nonempty) simp
  show "calculate_real_time_effectiveness (i # rest) =
       Inr (min (max (fraction_correct (i # rest) * 0.4
                      + max 0 (1 - arithmetic_mean (map response_time_seconds (i # rest)) / 30) * 0.2
                      + mean_confidence (i # rest) * 0.2
                      + trend_spec (i # rest) * 0.2) 0) 1)"
    by (rule real_time_nonempty) simp
  show "calculate_real_time_effectiveness
         (map (\<lambda>i. i\<lparr>hints_used := hints i, attempts := tries i\<rparr>) interactions)
       = calculate_real_time_effectiveness interactions"
    by (rule real_time_map) simp_all
  show "calculate_retention_effectiveness
         (map (\<lambda>i. i\<lparr>response_time_seconds := latency i, hints_used := hints i,
                        attempts := tries i\<rparr>) interactions)
       = calculate_retention_effectiveness interactions"
    unfolding retention_value by (simp add: retention_spec_map)
qed

lemma quick_clean_value:
  assumes "interactions \<noteq> []"
    and "\<forall>i\<in>set interactions. is_correct i \<and> response_time_seconds i \<le> 1
           \<and> hints_used i = 0 \<and> attempts i = 1"
  shows "calculate_immediate_effectiveness interactions =
           Inr (1 - arithmetic_mean (map response_time_seconds interactions) / 100)"
    and "arithmetic_mean (map response_time_seconds interactions) \<le> 1"
proof -
  have n: "real (length interactions) \<noteq> 0" using assms(1) by simp
  have "filter is_correct interactions = interactions"
    using assms(2) by (simp add: filter_id_conv)
  then have acc: "fraction_correct interactions = 1"
    using n by (simp add: fraction_correct_def)
  have "map (\<lambda>i. real_of_int (hints_used i)) interactions = map (\<lambda>i. 0) interactions"
    using assms(2) by (intro map_cong) simp_all
  then have "sum_list (map (\<lambda>i. real_of_int (hints_used i)) interactions) = (\<Sum>i\<leftarrow>interactions. 0)"
    by (rule arg_cong)
  then have hints: "arithmetic_mean (map (\<lambda>i. real_of_int (hints_used i)) interactions) = 0"
    by (simp add: arithmetic_mean_def)
  have "map (\<lambda>i. real_of_int (attempts i)) interactions = map (\<lambda>i. 1) interactions"
    using assms(2) by (intro map_cong) simp_all
  then have "sum_list (map (\<lambda>i. real_of_int (attempts i)) interactions) = (\<Sum>i\<leftarrow>interactions. 1)"
    by (rule arg_cong)
  then have att: "arithmetic_mean (map (\<lambda>i. real_of_int (attempts i)) interactions) = 1"
    using n by (simp add: arithmetic_mean_def sum_list_triv)
  show lat: "arithmetic_mean (map response_time_seconds interactions) \<le> 1"
    using assms by (intro arithmetic_mean_upper) auto
  then have "max 0 (1 - arithmetic_mean (map response_time_seconds interactions) / 30)
      = 1 - arithmetic_mean (map response_time_seconds interactions) / 30"
    by simp
  then show "calculate_immediate_effectiveness interactions =
           Inr (1 - arithmetic_mean (map response_time_seconds interactions) / 100)"
    by (simp add: immediate_nonempty [OF assms(1)] acc hints att) (simp add: field_simps)
qed

text \<open>
  Against claim C9 as stated: one correct answer with a latency of exactly one second, no
  hint and one attempt scores 0.99, which is not 1.0 within floating-point tolerance.
\<close>

theorem quick_clean_answers_counterexample:
  "is_correct example_one_second \<and> response_time_seconds example_one_second \<le> 1
   \<and> hints_used example_one_second = 0 \<and> attempts example_one_second = 1
   \<and> calculate_immediate_effectiveness [example_one_second] = Inr 0.99
   \<and> \<not> within_float_tolerance 0.99 1"
proof -
  have "calculate_immediate_effectiveness [example_one_second] = Inr 0.99"
    by (simp add: immediate_nonempty fraction_correct_def arithmetic_mean_def
          example_one_second_def example_interaction_def)
  then show ?thesis
    by (simp add: example_one_second_def example_interaction_def within_float_tolerance_def)
qed

text \<open>
  Claim C9, amended. For every non-empty interaction sequence in which every interaction
  is correct, has response latency at most 1 second, zero hints and exactly one attempt,
  immediate effectiveness is 1 - avg_latency/100: it is at least 0.99, and at most 1.0 when
  no latency is negative.
\<close>

theorem quick_clean_answers_score:
  assumes "interactions \<noteq> []"
    and "\<forall>i\<in>set interactions. is_correct i \<and> response_time_seconds i \<le> 1
           \<and> hints_used i = 0 \<and> attempts i = 1"
  shows "calculate_immediate_effectiveness interactions =
           Inr (1 - arithmetic_mean (map response_time_seconds interactions) / 100)
     \<and> 0.99 \<le> 1 - arithmetic_mean (map response_time_seconds interactions) / 100
     \<and> ((\<forall>i\<in>set interactions. 0 \<le> response_time_seconds i)
          \<longrightarrow> 1 - arithmetic_mean (map response_time_seconds interactions) / 100 \<le> 1)"
proof (intro conjI impI)
  show "calculate_immediate_effectiveness interactions =
           Inr (1 - arithmetic_mean (map response_time_seconds interactions) / 100)"
    using assms by (rule quick_clean_value(1))
  have "arithmetic_mean (map response_time_seconds interactions) \<le> 1"
    using assms by (rule quick_clean_value(2))
  then show "0.99 \<le> 1 - arithmetic_mean (map response_time_seconds interactions) / 100"
    by simp
next
  assume "\<forall>i\<in>set interactions. 0 \<le> response_time_seconds i"
  then have "0 \<le> arithmetic_mean (map response_time_seconds interactions)"
    using assms(1) by (intro arithmetic_mean_lower) auto
  then show "1 - arithmetic_mean (map response_time_seconds interactions) / 100 \<le> 1"
    by simp
qed

theorem quick_clean_answers_score_witness:
  "calculate_immediate_effectiveness [example_one_second, example_one_second] = Inr 0.99"
proof -
  have a: "[example_one_second, example_one_second] \<noteq> []" by simp
  have b: "\<forall>i\<in>set [example_one_second, example_one_second]. is_correct i \<and> response_time_seconds i \<le> 1
           \<and> hints_used i = 0 \<and> attempts i = 1"
    by (simp add: example_one_second_def example_interaction_def)
  have c: "\<forall>i\<in>set [example_one_second, example_one_second]. 0 \<le> response_time_seconds i"
    by (simp add: example_one_second_def example_interaction_def)
  have "1 - arithmetic_mean (map response_time_seconds [example_one_second, example_one_second]) / 100 = 0.99"
    by (simp add: arithmetic_mean_def example_one_second_def example_interaction_def)
  then show ?thesis
    using quick_clean_answers_score [OF a b] c by simp
qed

subsection \<open>Pattern identification\<close>

lemma hour_performance_value:
  "hour_performance interactions =
     map (\<lambda>h. (h, map is_correct (hour_interactions h interactions)))
       (first_occurrences (map (\<lambda>i. hour (timestamp i)) interactions))"
  unfolding hour_performance_def hour_interactions_def by (rule grouping_fold)

lemma best_hours_loop_value:
  "best_hours_loop groups acc =
     Inr (acc @ map fst (filter (\<lambda>g. 5 \<le> length (snd g)
            \<and> real (length (filter (\<lambda>correct. correct) (snd g))) / real (length (snd g)) > 0.8) groups))"
proof (induction groups acc rule: best_hours_loop.induct)
  case (1 best_hours)
  then show ?case by simp
next
  case (2 h performance rest best_hours)
  show ?case
  proof (cases "5 \<le> length performance")
    case False
    then show ?thesis using 2(3) by simp
  next
    case True
    then have n: "real (length performance) \<noteq> 0" by auto
    let ?a = "real (length (filter (\<lambda>correct. correct) performance)) / real (length performance)"
    have d: "py_div (real (length (filter (\<lambda>correct. correct) performance))) (real (length performance)) = Inr ?a"
      using n by (rule py_div_Inr)
    show ?thesis
    proof (cases "?a > 0.8")
      case hi: True
      from 2(1) [OF True d hi] show ?thesis using True hi by (simp add: d)
    next
      case lo: False
      from 2(2) [OF True d lo] show ?thesis using True lo by (simp add: d)
    qed
  qed
qed

lemma count_true_is_correct:
  "length (filter (\<lambda>correct. correct) (map is_correct xs)) = length (filter is_correct xs)"
  by (induction xs) simp_all

lemma best_hours_value:
  "best_hours_loop (hour_performance interactions) [] = Inr (qualifying_hours interactions)"
  by (simp add: best_hours_loop_value hour_performance_value qualifying_hours_def
        qualifying_hour_def fraction_correct_def filter_map comp_def count_true_is_correct)

lemma str_nat_0: "str_nat 0 = ''0''"
  by code_simp

lemma patterns_value:
  "identify_learning_patterns_ai interactions =
     Inr (if qualifying_hours interactions = [] then []
          else [\<lparr>pattern_id = ''optimal_timing_0'',
                 pattern_type = ''optimal_timing'',
                 description = ''User performs best during hours: ''
                   @ str_list (qualifying_hours interactions),
                 effectiveness_score = 0.8,
                 frequency = int (length (qualifying_hours interactions)),
                 applicable_users = [user_id (hd interactions)],
                 conditions = [(''optimal_hours'', qualifying_hours interactions)],
                 outcomes = [(''accuracy_improvement'', 0.2)]\<rparr>])"
proof (cases interactions)
  case Nil
  then show ?thesis
    by (simp add: identify_learning_patterns_ai_def qualifying_hours_def first_occurrences_def)
next
  case (Cons first rest)
  have "best_hours_loop (hour_performance (first # rest)) [] = Inr (qualifying_hours (first # rest))"
    by (rule best_hours_value)
  then show ?thesis
    unfolding Cons by (simp add: identify_learning_patterns_ai_def str_nat_0 del: str_nat.simps)
qed

lemma qualifying_hours_set:
  "set (qualifying_hours interactions) = {h. qualifying_hour h interactions}"
proof -
  have "qualifying_hour h interactions \<Longrightarrow> h \<in> set (map (\<lambda>i. hour (timestamp i)) interactions)" for h
  proof -
    assume "qualifying_hour h interactions"
    then have "hour_interactions h interactions \<noteq> []"
      by (auto simp: qualifying_hour_def)
    then obtain i where "i \<in> set interactions" "hour (timestamp i) = h"
      by (auto simp: hour_interactions_def filter_empty_conv)
    then show ?thesis by force
  qed
  then show ?thesis
    by (auto simp: qualifying_hours_def)
qed

lemma qualifying_hours_distinct: "distinct (qualifying_hours interactions)"
  by (simp add: qualifying_hours_def)

lemma qualifying_hours_card:
  "length (qualifying_hours interactions) = card {h. qualifying_hour h interactions}"
  using distinct_card [OF qualifying_hours_distinct, of interactions]
  by (simp add: qualifying_hours_set)

lemma example_hour_qualifies:
  "qualifying_hours (example_hour 9 [0, 1, 2, 3, 4]) = [9]"
  by (simp add: qualifying_hours_def qualifying_hour_def hour_interactions_def
        first_occurrences_def fraction_correct_def example_hour_def example_interaction_def)

lemma example_four_fails:
  "qualifying_hours (example_hour 9 [0, 1, 2, 3]) = []"
  by (simp add: qualifying_hours_def qualifying_hour_def hour_interactions_def
        first_occurrences_def fraction_correct_def example_hour_def example_interaction_def)

lemma example_two_hours_qualify:
  "qualifying_hours (example_hour 9 [0, 1, 2, 3, 4] @ example_hour 14 [0, 1, 2, 3, 4]) = [9, 14]"
  by (simp add: qualifying_hours_def qualifying_hour_def hour_interactions_def
        first_occurrences_def fraction_correct_def example_hour_def example_interaction_def)

text \<open>
  Claim C7. Pattern identification groups the interactions by hour of the day. If some
  hour has at least 5 interactions with accuracy strictly above 0.8, exactly one pattern
  is emitted: its type is "optimal_timing", its conditions record that hour and its
  effectiveness_score is the constant 0.8. An hour with fewer than 5 interactions, even
  all correct, is recorded by no emitted pattern, and when every hour has fewer than 5
  interactions no pattern is emitted.
\<close>

theorem optimal_timing_pattern:
  "(qualifying_hour h interactions \<longrightarrow>
      (\<exists>p. identify_learning_patterns_ai interactions = Inr [p]
           \<and> pattern_type p = ''optimal_timing''
           \<and> h \<in> set (recorded_hours p)
           \<and> effectiveness_score p = 0.8))
   \<and> (length (hour_interactions h interactions) < 5 \<longrightarrow>
      (\<exists>ps. identify_learning_patterns_ai interactions = Inr ps
           \<and> length ps \<le> 1 \<and> h \<notin> \<Union> (set (map (\<lambda>p. set (recorded_hours p)) ps))))
   \<and> ((\<forall>i\<in>set interactions. length (hour_interactions (hour (timestamp i)) interactions) < 5) \<longrightarrow>
      identify_learning_patterns_ai interactions = Inr [])"
proof (intro conjI impI)
  assume q: "qualifying_hour h interactions"
  then have "h \<in> set (qualifying_hours interactions)"
    by (simp add: qualifying_hours_set)
  then show "\<exists>p. identify_learning_patterns_ai interactions = Inr [p]
           \<and> pattern_type p = ''optimal_timing''
           \<and> h \<in> set (recorded_hours p)
           \<and> effectiveness_score p = 0.8"
    by (auto simp: patterns_value recorded_hours_def)
next
  assume "length (hour_interactions h interactions) < 5"
  then have "\<not> qualifying_hour h interactions"
    by (simp add: qualifying_hour_def)
  then have "h \<notin> set (qualifying_hours interactions)"
    by (simp add: qualifying_hours_set)
  then show "\<exists>ps. identify_learning_patterns_ai interactions = Inr ps
           \<and> length ps \<le> 1 \<and> h \<notin> \<Union> (set (map (\<lambda>p. set (recorded_hours p)) ps))"
    by (auto simp: patterns_value recorded_hours_def)
next
  assume a: "\<forall>i\<in>set interactions. length (hour_interactions (hour (timestamp i)) interactions) < 5"
  have "qualifying_hours interactions = []"
    unfolding qualifying_hours_def filter_empty_conv
    using a by (auto simp: qualifying_hour_def)
  then show "identify_learning_patterns_ai interactions = Inr []"
    by (simp add: patterns_value)
qed

theorem optimal_timing_pattern_witness:
  "(\<exists>p. identify_learning_patterns_ai (example_hour 9 [0, 1, 2, 3, 4]) = Inr [p]
        \<and> pattern_type p = ''optimal_timing''
        \<and> 9 \<in> set (recorded_hours p)
        \<and> effectiveness_score p = 0.8)
   \<and> identify_learning_patterns_ai (example_hour 9 [0, 1, 2, 3]) = Inr []"
proof
  have "9 \<in> set (qualifying_hours (example_hour 9 [0, 1, 2, 3, 4]))"
    unfolding example_hour_qualifies by simp
  then have q: "qualifying_hour 9 (example_hour 9 [0, 1, 2, 3, 4])"
    by (simp add: qualifying_hours_set)
  show "\<exists>p. identify_learning_patterns_ai (example_hour 9 [0, 1, 2, 3, 4]) = Inr [p]
        \<and> pattern_type p = ''optimal_timing''
        \<and> 9 \<in> set (recorded_hours p)
        \<and> effectiveness_score p = 0.8"
    by (rule mp [OF conjunct1 [OF optimal_timing_pattern]]) (rule q)
next
  have four: "\<forall>i\<in>set (example_hour 9 [0, 1, 2, 3]).
      length (hour_interactions (hour (timestamp i)) (example_hour 9 [0, 1, 2, 3])) < 5"
    by (simp add: hour_interactions_def example_hour_def example_interaction_def)
  show "identify_learning_patterns_ai (example_hour 9 [0, 1, 2, 3]) = Inr []"
    by (rule mp [OF conjunct2 [OF conjunct2 [OF optimal_timing_pattern [of 9]]]]) (rule four)
qed

text \<open>
  Claim C10. For every interaction list, pattern identification emits at most one
  pattern: either no hour qualifies and nothing is emitted, or a single "optimal_timing"
  pattern is emitted whose conditions hold the one list of all qualifying hours (each hour
  once) and whose frequency is the number of qualifying hours.
\<close>

theorem single_aggregated_pattern:
  "(qualifying_hours interactions = [] \<and> identify_learning_patterns_ai interactions = Inr []
    \<or> (\<exists>p. identify_learning_patterns_ai interactions = Inr [p]
          \<and> pattern_type p = ''optimal_timing''
          \<and> conditions p = [(''optimal_hours'', qualifying_hours interactions)]
          \<and> frequency p = int (card {h. qualifying_hour h interactions})))
   \<and> set (qualifying_hours interactions) = {h. qualifying_hour h interactions}
   \<and> distinct (qualifying_hours interactions)"
  by (simp add: patterns_value qualifying_hours_set qualifying_hours_distinct qualifying_hours_card)

theorem single_aggregated_pattern_witness:
  "\<exists>p. identify_learning_patterns_ai (example_hour 9 [0, 1, 2, 3, 4] @ example_hour 14 [0, 1, 2, 3, 4]) = Inr [p]
       \<and> conditions p = [(''optimal_hours'', [9, 14])]
       \<and> frequency p = 2"
proof -
  let ?ex = "example_hour 9 [0, 1, 2, 3, 4] @ example_hour 14 [0, 1, 2, 3, 4]"
  have q: "qualifying_hours ?ex = [9, 14]" by (rule example_two_hours_qualify)
  have "card {h. qualifying_hour h ?ex} = card (set (qualifying_hours ?ex))"
    using single_aggregated_pattern [of ?ex] by simp
  then have c: "card {h. qualifying_hour h ?ex} = 2"
    unfolding q by simp
  show ?thesis
    using single_aggregated_pattern [of ?ex] unfolding q c by auto
qed

end
